theory Spec2Isabelle
  imports Complex_Main "HOL-Library.Char_ord" "HOL-Library.List_Lexorder"
begin

section \<open>Data model of the attendance routes\<close>

text \<open>
  The routes of the attendance router work on four collections of documents: users,
  subjects, attendance sessions and attendance records. Identifiers are the strings the
  handlers compare (hex-encoded ObjectIds, and the composed session identifier); times
  are milliseconds since the epoch.

  A handler is modelled from the point where its callback starts: the validator chain
  declared with the route and the body of the callback. The middleware in front of it
  (\<open>authenticateToken\<close>, \<open>requireRole\<close>) has run, and \<open>req.user\<close> is an input. A
  handler returns either an error or its answer, together with the changed store when it
  writes; a request that fails has written nothing, because every \<open>save()\<close> is the last
  step before the answer. The schemas of the user, session and attendance collections
  are not among the sources, and a field has the type the handlers use it at. An
  identifier taken from a request body is cast to an ObjectId where the handler looks a
  document up by it (\<open>castObjectId\<close> below); \<open>req.user.userId\<close> is the string of the
  caller's ObjectId as the authentication middleware wrote it, and the identifiers in
  the store are such strings, in lower case. What else the schemas would cast or reject
  on \<open>save()\<close> and in a query filter is not modelled.
\<close>

type_synonym oid = string
type_synonym time = nat

datatype att_status = Present | Absent | Late

datatype session_status = Active | Completed

text \<open>The fields of a user document that the handlers read.\<close>

record user =
  u_id :: oid
  u_username :: string
  u_role :: string
  u_department :: string
  u_division :: string
  u_semester :: int
  u_isActive :: bool
  u_enrollmentNumber :: string

text \<open>The fields of \<open>subjectSchema\<close> that the handlers read or populate.\<close>

record subject =
  sub_id :: oid
  sub_name :: string
  sub_code :: string
  sub_credits :: int

record session =
  s_sessionId :: string
  s_subject :: oid
  s_subjectName :: string
  s_faculty :: oid
  s_facultyName :: string
  s_date :: time
  s_startTime :: time
  s_endTime :: "time option"
  s_division :: string
  s_department :: string
  s_semester :: int
  s_totalStudents :: int
  s_presentStudents :: int
  s_absentStudents :: int
  s_status :: session_status

record attendance =
  a_student :: oid
  a_studentName :: string
  a_enrollmentNumber :: string
  a_subject :: oid
  a_subjectName :: string
  a_faculty :: oid
  a_facultyName :: string
  a_date :: time
  a_status :: att_status
  a_division :: string
  a_department :: string
  a_semester :: int
  a_sessionId :: string
  a_detectionConfidence :: rat
  a_remarks :: string

text \<open>
  The store: each collection is the list of its documents in insertion order, so that
  \<open>findOne\<close> is the first document that matches.
\<close>

record db =
  users :: "user list"
  subjects :: "subject list"
  sessions :: "session list"
  attendances :: "attendance list"

text \<open>\<open>req.user\<close>, as the authentication middleware leaves it.\<close>

record req_user =
  userId :: oid
  role :: string

text \<open>
  The outcomes of a handler other than success. \<open>ValidationError\<close> is the 400 answer
  with the validator's error array, \<open>NotFoundError\<close> the 404 of the end route and the
  400 "Subject not found" / "Faculty not found" of the start route,
  \<open>InvalidSessionError\<close> the 400 "Invalid or inactive session",
  \<open>InvalidStudentError\<close> the 400 "Student not found", \<open>AccessDeniedError\<close> the 403,
  and \<open>ServerError\<close> the 500 of the \<open>catch\<close> block.
\<close>

datatype error =
  ValidationError | NotFoundError | InvalidSessionError | InvalidStudentError
  | AccessDeniedError | ServerError

section \<open>Store operations\<close>

definition findById_user :: "oid \<Rightarrow> user list \<Rightarrow> user option" where
  "findById_user i us = find (\<lambda>u. u_id u = i) us"

definition findById_subject :: "oid \<Rightarrow> subject list \<Rightarrow> subject option" where
  "findById_subject i ss = find (\<lambda>s. sub_id s = i) ss"

definition countDocuments :: "('a \<Rightarrow> bool) \<Rightarrow> 'a list \<Rightarrow> int" where
  "countDocuments P xs = int (length (filter P xs))"

text \<open>
  \<open>doc.save()\<close> on a document obtained from \<open>findOne\<close>: the first document that
  matched the query is replaced by its changed copy, at the same place.
\<close>

fun save_found :: "('a \<Rightarrow> bool) \<Rightarrow> 'a \<Rightarrow> 'a list \<Rightarrow> 'a list" where
  "save_found P y [] = []"
| "save_found P y (x # xs) = (if P x then y # xs else x # save_found P y xs)"

section \<open>Request validation\<close>

definition isHexDigit :: "char \<Rightarrow> bool" where
  "isHexDigit c = (c \<in> set ''0123456789abcdefABCDEF'')"

text \<open>
  The validator \<open>isHexadecimal\<close> tests the string against
  \<open>/^(0x|0h)?[0-9A-F]+$/i\<close>: hexadecimal digits, at least one, after an optional
  prefix \<open>0x\<close> or \<open>0h\<close> in either case.
\<close>

definition isHexadecimal :: "string \<Rightarrow> bool" where
  "isHexadecimal s =
     (let digits = (if take 2 s \<in> set [''0x'', ''0X'', ''0h'', ''0H''] then drop 2 s else s)
      in digits \<noteq> [] \<and> list_all isHexDigit digits)"

text \<open>\<open>isMongoId\<close>: \<open>isHexadecimal(str) && str.length === 24\<close>.\<close>

definition isMongoId :: "string \<Rightarrow> bool" where
  "isMongoId s = (isHexadecimal s \<and> length s = 24)"

text \<open>
  The cast of a string to an ObjectId, as \<open>findById\<close> and a filter on a reference field
  make it: a string of 24 characters is an ObjectId exactly when all of them are
  hexadecimal digits, and the ObjectId it denotes does not depend on the case of the
  digits. The ObjectId is given by its string, which is in lower case. A string that is not
  an ObjectId makes the query throw a \<open>CastError\<close>.
\<close>

definition lower_hex :: "char \<Rightarrow> char" where
  "lower_hex c =
     (if c = CHR ''A'' then CHR ''a'' else if c = CHR ''B'' then CHR ''b''
      else if c = CHR ''C'' then CHR ''c'' else if c = CHR ''D'' then CHR ''d''
      else if c = CHR ''E'' then CHR ''e'' else if c = CHR ''F'' then CHR ''f'' else c)"

definition oid_of :: "string \<Rightarrow> oid" where
  "oid_of s = map lower_hex s"

definition castObjectId :: "string \<Rightarrow> oid option" where
  "castObjectId s = (if length s = 24 \<and> list_all isHexDigit s then Some (oid_of s) else None)"

text \<open>\<open>isIn(['present', 'absent', 'late'])\<close>, with the value it admits.\<close>

definition parse_status :: "string \<Rightarrow> att_status option" where
  "parse_status s =
     (if s = ''present'' then Some Present
      else if s = ''absent'' then Some Absent
      else if s = ''late'' then Some Late
      else None)"

text \<open>JavaScript's \<open>x || 0\<close> on an optional number and \<open>x || ''\<close> on an optional string.\<close>

definition or_zero :: "rat option \<Rightarrow> rat" where
  "or_zero c = (case c of None \<Rightarrow> 0 | Some x \<Rightarrow> if x = 0 then 0 else x)"

definition or_empty :: "string option \<Rightarrow> string" where
  "or_empty r = (case r of None \<Rightarrow> [] | Some x \<Rightarrow> if x = [] then [] else x)"

text \<open>Truthiness of an optional query-string parameter: present and not empty.\<close>

definition truthy :: "string option \<Rightarrow> bool" where
  "truthy p = (case p of None \<Rightarrow> False | Some x \<Rightarrow> x \<noteq> [])"

section \<open>Ending a session\<close>

definition active_session :: "string \<Rightarrow> oid \<Rightarrow> session \<Rightarrow> bool" where
  "active_session sid fid s =
     (s_sessionId s = sid \<and> s_faculty s = fid \<and> s_status s = Active)"

text \<open>
  \<open>router.put('/session/:sessionId/end')\<close>. The clock read by \<open>new Date()\<close> is the
  argument \<open>now\<close>. The result is the changed store and the session sent back.
\<close>

definition session_end :: "db \<Rightarrow> req_user \<Rightarrow> string \<Rightarrow> time \<Rightarrow> error + db \<times> session" where
  "session_end d u sessionId now =
     (let facultyId = userId u in
      case find (active_session sessionId facultyId) (sessions d) of
        None \<Rightarrow> Inl NotFoundError
      | Some session \<Rightarrow>
          let presentCount =
                countDocuments (\<lambda>a. a_sessionId a = sessionId \<and> a_status a = Present)
                  (attendances d);
              absentCount = s_totalStudents session - presentCount;
              session' = session
                \<lparr>s_endTime := Some now,
                 s_presentStudents := presentCount,
                 s_absentStudents := absentCount,
                 s_status := Completed\<rparr>
          in Inr (d\<lparr>sessions :=
                      save_found (active_session sessionId facultyId) session' (sessions d)\<rparr>,
                  session'))"

section \<open>Marking attendance\<close>

record mark_body =
  m_sessionId :: string
  m_studentId :: string
  m_status :: string
  m_detectionConfidence :: "rat option"
  m_remarks :: "string option"

text \<open>
  The validator chain of the mark route: \<open>sessionId\<close> not empty, \<open>studentId\<close> a
  MongoId, \<open>status\<close> one of the three names.
\<close>

definition mark_errors_isEmpty :: "mark_body \<Rightarrow> bool" where
  "mark_errors_isEmpty b =
     (m_sessionId b \<noteq> [] \<and> isMongoId (m_studentId b) \<and> parse_status (m_status b) \<noteq> None)"

datatype mark_response = Updated attendance | Created attendance

definition same_pair :: "oid \<Rightarrow> string \<Rightarrow> attendance \<Rightarrow> bool" where
  "same_pair studentId sessionId a = (a_student a = studentId \<and> a_sessionId a = sessionId)"

text \<open>
  \<open>router.post('/mark')\<close>. \<open>User.findById(studentId)\<close> throws when the string is not
  an ObjectId, which the validator does not exclude (a prefix \<open>0x\<close> passes it); the
  \<open>catch\<close> block then answers 500. The record of the pair is looked up and stored
  under the student's ObjectId. The faculty document is read before the existing record
  is looked up, but only the branch that creates a record dereferences it
  (\<open>faculty.username\<close>): there a missing faculty document throws, and the \<open>catch\<close>
  block answers 500 with nothing saved.
\<close>

definition mark :: "db \<Rightarrow> req_user \<Rightarrow> mark_body \<Rightarrow> error + db \<times> mark_response" where
  "mark d u b =
     (if \<not> mark_errors_isEmpty b then Inl ValidationError
      else case parse_status (m_status b) of
        None \<Rightarrow> Inl ValidationError
      | Some status \<Rightarrow>
          let sessionId = m_sessionId b; studentId = m_studentId b; facultyId = userId u in
          (case find (active_session sessionId facultyId) (sessions d) of
            None \<Rightarrow> Inl InvalidSessionError
          | Some session \<Rightarrow>
              (case castObjectId studentId of
                None \<Rightarrow> Inl ServerError
              | Some student_id \<Rightarrow>
              (case findById_user student_id (users d) of
                None \<Rightarrow> Inl InvalidStudentError
              | Some student \<Rightarrow>
                  if u_role student \<noteq> ''student'' then Inl InvalidStudentError
                  else
                    let faculty = findById_user facultyId (users d) in
                    (case find (same_pair student_id sessionId) (attendances d) of
                      Some existingAttendance \<Rightarrow>
                        let existingAttendance' = existingAttendance
                              \<lparr>a_status := status,
                               a_detectionConfidence := or_zero (m_detectionConfidence b),
                               a_remarks := or_empty (m_remarks b)\<rparr>
                        in Inr (d\<lparr>attendances :=
                                    save_found (same_pair student_id sessionId)
                                      existingAttendance' (attendances d)\<rparr>,
                                Updated existingAttendance')
                    | None \<Rightarrow>
                        (case faculty of
                          None \<Rightarrow> Inl ServerError
                        | Some fac \<Rightarrow>
                            let attendance =
                                  \<lparr>a_student = student_id,
                                   a_studentName = u_username student,
                                   a_enrollmentNumber = u_enrollmentNumber student,
                                   a_subject = s_subject session,
                                   a_subjectName = s_subjectName session,
                                   a_faculty = facultyId,
                                   a_facultyName = u_username fac,
                                   a_date = s_date session,
                                   a_status = status,
                                   a_division = s_division session,
                                   a_department = s_department session,
                                   a_semester = s_semester session,
                                   a_sessionId = sessionId,
                                   a_detectionConfidence = or_zero (m_detectionConfidence b),
                                   a_remarks = or_empty (m_remarks b)\<rparr>
                            in Inr (d\<lparr>attendances := attendances d @ [attendance]\<rparr>,
                                    Created attendance)))))))"

text \<open>
  A sequence of mark requests, each on the store the previous one left; the run stops at
  the first request that fails.
\<close>

fun mark_all :: "db \<Rightarrow> (req_user \<times> mark_body) list \<Rightarrow> error + db \<times> mark_response list" where
  "mark_all d [] = Inr (d, [])"
| "mark_all d ((u, b) # calls) =
     (case mark d u b of
        Inl e \<Rightarrow> Inl e
      | Inr (d', r) \<Rightarrow>
          (case mark_all d' calls of
             Inl e \<Rightarrow> Inl e
           | Inr (d'', rs) \<Rightarrow> Inr (d'', r # rs)))"

section \<open>Starting a session\<close>

record start_body =
  st_subjectId :: string
  st_division :: string
  st_department :: string
  st_semester :: int

definition start_errors_isEmpty :: "start_body \<Rightarrow> bool" where
  "start_errors_isEmpty b =
     (isMongoId (st_subjectId b)
      \<and> st_division b \<in> set [''A'', ''B'', ''C'']
      \<and> st_department b \<in> set [''CSE'', ''ME'', ''CE'', ''EE'', ''ECE'']
      \<and> 1 \<le> st_semester b \<and> st_semester b \<le> 8)"

text \<open>The decimal digits of \<open>Date.now()\<close> inside the template string.\<close>

fun show_nat :: "nat \<Rightarrow> string" where
  "show_nat n =
     (if n < 10 then [''0123456789'' ! n]
      else show_nat (n div 10) @ [''0123456789'' ! (n mod 10)])"

declare show_nat.simps [simp del]

text \<open>
  \<open>router.post('/session/start')\<close>. The three clock reads of one request
  (\<open>Date.now()\<close> and two \<open>new Date()\<close>) are the one argument \<open>now\<close>. The counts of
  a new session are 0 until the session is ended. \<open>Subject.findById(subjectId)\<close>
  throws when the string is not an ObjectId; the session identifier is composed from the
  strings as they were sent. The handler does not look for a session that already has
  the identifier it composes.
\<close>

definition session_start :: "db \<Rightarrow> req_user \<Rightarrow> start_body \<Rightarrow> time \<Rightarrow> error + db \<times> session" where
  "session_start d u b now =
     (if \<not> start_errors_isEmpty b then Inl ValidationError
      else
        let subjectId = st_subjectId b; division = st_division b;
            department = st_department b; semester = st_semester b;
            facultyId = userId u
        in case castObjectId subjectId of
          None \<Rightarrow> Inl ServerError
        | Some subject_id \<Rightarrow>
        (case findById_subject subject_id (subjects d) of
          None \<Rightarrow> Inl NotFoundError
        | Some subject \<Rightarrow>
            (case findById_user facultyId (users d) of
              None \<Rightarrow> Inl NotFoundError
            | Some faculty \<Rightarrow>
                let totalStudents =
                      countDocuments
                        (\<lambda>x. u_role x = ''student'' \<and> u_department x = department
                           \<and> u_division x = division \<and> u_semester x = semester
                           \<and> u_isActive x)
                        (users d);
                    sessionId = show_nat now @ ''_'' @ facultyId @ ''_'' @ subjectId;
                    session =
                      \<lparr>s_sessionId = sessionId,
                       s_subject = subject_id,
                       s_subjectName = sub_name subject,
                       s_faculty = facultyId,
                       s_facultyName = u_username faculty,
                       s_date = now,
                       s_startTime = now,
                       s_endTime = None,
                       s_division = division,
                       s_department = department,
                       s_semester = semester,
                       s_totalStudents = totalStudents,
                       s_presentStudents = 0,
                       s_absentStudents = 0,
                       s_status = Active\<rparr>
                in Inr (d\<lparr>sessions := sessions d @ [session]\<rparr>, session))))"

section \<open>Queries\<close>

text \<open>
  The filter object handed to \<open>Attendance.find\<close>: a field that is \<open>None\<close> is not
  constrained. A query-string parameter is \<open>None\<close> when it is missing; the numeric and
  date parameters are given at the value Mongoose casts them to.
\<close>

record att_filter =
  f_student :: "oid option"
  f_subject :: "oid option"
  f_division :: "string option"
  f_department :: "string option"
  f_semester :: "int option"
  f_faculty :: "oid option"
  f_date :: "(time \<times> time) option"

definition no_filter :: att_filter where
  "no_filter = \<lparr>f_student = None, f_subject = None, f_division = None,
     f_department = None, f_semester = None, f_faculty = None, f_date = None\<rparr>"

text \<open>The statement \<open>if (c) filter.x = v\<close>: the assignment \<open>g\<close> is made when \<open>c\<close> holds.\<close>

definition set_when :: "bool \<Rightarrow> (att_filter \<Rightarrow> att_filter) \<Rightarrow> att_filter \<Rightarrow> att_filter" where
  "set_when c g f = (if c then g f else f)"

definition field_ok :: "'a option \<Rightarrow> 'a \<Rightarrow> bool" where
  "field_ok c v = (case c of None \<Rightarrow> True | Some w \<Rightarrow> v = w)"

definition matches :: "att_filter \<Rightarrow> attendance \<Rightarrow> bool" where
  "matches f a =
     (field_ok (f_student f) (a_student a)
      \<and> field_ok (f_subject f) (a_subject a)
      \<and> field_ok (f_division f) (a_division a)
      \<and> field_ok (f_department f) (a_department a)
      \<and> field_ok (f_semester f) (a_semester a)
      \<and> field_ok (f_faculty f) (a_faculty a)
      \<and> (case f_date f of None \<Rightarrow> True | Some (lo, hi) \<Rightarrow> lo \<le> a_date a \<and> a_date a \<le> hi))"

definition find_attendance :: "att_filter \<Rightarrow> attendance list \<Rightarrow> attendance list" where
  "find_attendance f xs = filter (matches f) xs"

text \<open>\<open>.sort({ date: -1 })\<close>, as a stable sort.\<close>

definition sort_date_desc :: "attendance list \<Rightarrow> attendance list" where
  "sort_date_desc xs = sort_key (\<lambda>a. - int (a_date a)) xs"

text \<open>\<open>.sort({ date: -1, studentName: 1 })\<close>: by date, newest first, then by name.\<close>

definition sort_date_desc_name :: "attendance list \<Rightarrow> attendance list" where
  "sort_date_desc_name xs = sort_key (\<lambda>a. - int (a_date a)) (sort_key a_studentName xs)"

section \<open>The attendance of one student, with statistics\<close>

record student_query =
  q_subjectId :: "string option"
  q_startDate :: "time option"
  q_endDate :: "time option"

text \<open>A record after \<open>populate('subject')\<close> and \<open>populate('faculty')\<close>: a reference
  whose document is gone is \<open>null\<close>.\<close>

record student_row =
  r_doc :: attendance
  r_subject :: "subject option"
  r_faculty :: "user option"

definition populate_student_row :: "db \<Rightarrow> attendance \<Rightarrow> student_row" where
  "populate_student_row d a =
     \<lparr>r_doc = a,
      r_subject = findById_subject (a_subject a) (subjects d),
      r_faculty = findById_user (a_faculty a) (users d)\<rparr>"

text \<open>One entry of the \<open>stats\<close> object after the first loop.\<close>

record tally =
  t_subjectName :: string
  t_total :: nat
  t_present :: nat
  t_absent :: nat
  t_late :: nat

definition new_tally :: "attendance \<Rightarrow> tally" where
  "new_tally record =
     \<lparr>t_subjectName = a_subjectName record, t_total = 0, t_present = 0, t_absent = 0,
      t_late = 0\<rparr>"

text \<open>\<open>stats[subjectKey].total++; stats[subjectKey][record.status]++\<close>\<close>

definition count_record :: "attendance \<Rightarrow> tally \<Rightarrow> tally" where
  "count_record record t =
     (let t' = t\<lparr>t_total := t_total t + 1\<rparr>
      in case a_status record of
           Present \<Rightarrow> t'\<lparr>t_present := t_present t' + 1\<rparr>
         | Absent \<Rightarrow> t'\<lparr>t_absent := t_absent t' + 1\<rparr>
         | Late \<Rightarrow> t'\<lparr>t_late := t_late t' + 1\<rparr>)"

text \<open>
  The \<open>stats\<close> object is the list of its keys with their entries, in the order the keys
  were first set, which is the order \<open>Object.keys\<close> and \<open>Object.values\<close> give for keys
  that are ObjectId strings.
\<close>

fun update_entry :: "string \<Rightarrow> (tally \<Rightarrow> tally) \<Rightarrow> (string \<times> tally) list \<Rightarrow> (string \<times> tally) list" where
  "update_entry k g [] = []"
| "update_entry k g ((k', t) # kts) =
     (if k' = k then (k', g t) # kts else (k', t) # update_entry k g kts)"

definition tally_record :: "string \<Rightarrow> attendance \<Rightarrow> (string \<times> tally) list \<Rightarrow> (string \<times> tally) list" where
  "tally_record subjectKey record stats =
     (let stats' = (if map_of stats subjectKey = None
                    then stats @ [(subjectKey, new_tally record)] else stats)
      in update_entry subjectKey (count_record record) stats')"

text \<open>
  The first \<open>forEach\<close>: \<open>record.subject._id\<close> throws on a record whose subject was not
  populated, which the \<open>catch\<close> block turns into the 500 answer.
\<close>

fun tally_all :: "(string \<times> tally) list \<Rightarrow> student_row list \<Rightarrow> error + (string \<times> tally) list" where
  "tally_all stats [] = Inr stats"
| "tally_all stats (r # rs) =
     (case r_subject r of
        None \<Rightarrow> Inl ServerError
      | Some s \<Rightarrow> tally_all (tally_record (sub_id s) (r_doc r) stats) rs)"

text \<open>
  \<open>toFixed(1)\<close>: the multiple of one tenth nearest to the number, the larger one of two
  that are equally near; a negative number is rounded by its magnitude. The value is kept
  as a number, which is what the comparisons with 90 and 75 convert the string to.
\<close>

definition toFixed1 :: "rat \<Rightarrow> rat" where
  "toFixed1 x =
     (if x < 0 then - (of_int \<lfloor>(- x) * 10 + 1 / 2\<rfloor> / 10)
      else of_int \<lfloor>x * 10 + 1 / 2\<rfloor> / 10)"

record stat =
  st_subjectName :: string
  st_total :: nat
  st_present :: nat
  st_absent :: nat
  st_late :: nat
  st_percentage :: rat
  st_status :: string

text \<open>
  The expression \<open>(stat.present + stat.late) / stat.total * 100\<close> is evaluated in
  double precision: a division and a multiplication, each rounded. The value it yields for
  the two integers is the parameter \<open>fl\<close> of the statistics; \<open>exact_percent\<close> is the
  quotient without rounding.
\<close>

definition exact_percent :: "nat \<Rightarrow> nat \<Rightarrow> rat" where
  "exact_percent n t = of_nat n / of_nat t * 100"

definition percentage_of :: "(nat \<Rightarrow> nat \<Rightarrow> rat) \<Rightarrow> tally \<Rightarrow> rat" where
  "percentage_of fl t =
     (if t_total t > 0 then toFixed1 (fl (t_present t + t_late t) (t_total t)) else 0)"

definition status_of :: "rat \<Rightarrow> string" where
  "status_of percentage =
     (if percentage \<ge> 90 then ''excellent'' else if percentage \<ge> 75 then ''good'' else ''bad'')"

text \<open>The second \<open>forEach\<close>, on one entry.\<close>

definition finish_stat :: "(nat \<Rightarrow> nat \<Rightarrow> rat) \<Rightarrow> tally \<Rightarrow> stat" where
  "finish_stat fl t =
     \<lparr>st_subjectName = t_subjectName t, st_total = t_total t, st_present = t_present t,
      st_absent = t_absent t, st_late = t_late t,
      st_percentage = percentage_of fl t,
      st_status = status_of (percentage_of fl t)\<rparr>"

definition statistics :: "(nat \<Rightarrow> nat \<Rightarrow> rat) \<Rightarrow> student_row list \<Rightarrow> error + stat list" where
  "statistics fl rows =
     (case tally_all [] rows of
        Inl e \<Rightarrow> Inl e
      | Inr stats \<Rightarrow> Inr (map (\<lambda>(k, t). finish_stat fl t) stats))"

definition student_filter :: "string \<Rightarrow> student_query \<Rightarrow> att_filter" where
  "student_filter studentId q =
     (let filter0 = no_filter\<lparr>f_student := Some studentId\<rparr>;
          filter1 = set_when (truthy (q_subjectId q))
                      (\<lambda>f. f\<lparr>f_subject := q_subjectId q\<rparr>) filter0
      in case (q_startDate q, q_endDate q) of
           (Some startDate, Some endDate) \<Rightarrow> filter1\<lparr>f_date := Some (startDate, endDate)\<rparr>
         | _ \<Rightarrow> filter1)"

text \<open>\<open>router.get('/student/:studentId')\<close>\<close>

definition student_attendance ::
    "(nat \<Rightarrow> nat \<Rightarrow> rat) \<Rightarrow> db \<Rightarrow> req_user \<Rightarrow> string \<Rightarrow> student_query
      \<Rightarrow> error + student_row list \<times> stat list" where
  "student_attendance fl d u studentId q =
     (if role u = ''student'' \<and> userId u \<noteq> studentId then Inl AccessDeniedError
      else
        let attendance =
              map (populate_student_row d)
                (sort_date_desc (find_attendance (student_filter studentId q) (attendances d)))
        in case statistics fl attendance of
             Inl e \<Rightarrow> Inl e
           | Inr stats \<Rightarrow> Inr (attendance, stats))"

section \<open>The report\<close>

record report_query =
  rq_subjectId :: "string option"
  rq_division :: "string option"
  rq_department :: "string option"
  rq_semester :: "int option"
  rq_startDate :: "time option"
  rq_endDate :: "time option"
  rq_facultyId :: "string option"

record report_row =
  rr_doc :: attendance
  rr_student :: "user option"
  rr_subject :: "subject option"
  rr_faculty :: "user option"

definition populate_report_row :: "db \<Rightarrow> attendance \<Rightarrow> report_row" where
  "populate_report_row d a =
     \<lparr>rr_doc = a,
      rr_student = findById_user (a_student a) (users d),
      rr_subject = findById_subject (a_subject a) (subjects d),
      rr_faculty = findById_user (a_faculty a) (users d)\<rparr>"

text \<open>The filter the report handler builds, statement by statement.\<close>

definition report_filter :: "req_user \<Rightarrow> report_query \<Rightarrow> att_filter" where
  "report_filter u q =
     (let filter0 = no_filter;
          filter1 = set_when (truthy (rq_subjectId q))
                      (\<lambda>f. f\<lparr>f_subject := rq_subjectId q\<rparr>) filter0;
          filter2 = set_when (truthy (rq_division q))
                      (\<lambda>f. f\<lparr>f_division := rq_division q\<rparr>) filter1;
          filter3 = set_when (truthy (rq_department q))
                      (\<lambda>f. f\<lparr>f_department := rq_department q\<rparr>) filter2;
          filter4 = set_when (rq_semester q \<noteq> None)
                      (\<lambda>f. f\<lparr>f_semester := rq_semester q\<rparr>) filter3;
          filter5 = set_when (truthy (rq_facultyId q))
                      (\<lambda>f. f\<lparr>f_faculty := rq_facultyId q\<rparr>) filter4;
          filter6 = set_when (role u = ''faculty'')
                      (\<lambda>f. f\<lparr>f_faculty := Some (userId u)\<rparr>) filter5
      in case (rq_startDate q, rq_endDate q) of
           (Some startDate, Some endDate) \<Rightarrow> filter6\<lparr>f_date := Some (startDate, endDate)\<rparr>
         | _ \<Rightarrow> filter6)"

text \<open>\<open>router.get('/report')\<close>\<close>

definition report :: "db \<Rightarrow> req_user \<Rightarrow> report_query \<Rightarrow> report_row list" where
  "report d u q =
     map (populate_report_row d)
       (sort_date_desc_name (find_attendance (report_filter u q) (attendances d)))"

section \<open>Properties of the records of one student in one session\<close>

text \<open>The records of a (student, session) pair, and all the others.\<close>

definition pair_records :: "oid \<Rightarrow> string \<Rightarrow> db \<Rightarrow> attendance list" where
  "pair_records stu sid d = filter (same_pair stu sid) (attendances d)"

definition other_records :: "oid \<Rightarrow> string \<Rightarrow> db \<Rightarrow> attendance list" where
  "other_records stu sid d = filter (\<lambda>a. \<not> same_pair stu sid a) (attendances d)"

text \<open>A record carries the status, confidence and remark of a mark request.\<close>

definition carries :: "mark_body \<Rightarrow> attendance \<Rightarrow> bool" where
  "carries b a =
     (parse_status (m_status b) = Some (a_status a)
      \<and> a_detectionConfidence a = or_zero (m_detectionConfidence b)
      \<and> a_remarks a = or_empty (m_remarks b))"

definition is_update :: "mark_response \<Rightarrow> bool" where
  "is_update r = (case r of Updated a \<Rightarrow> True | Created a \<Rightarrow> False)"

text \<open>The faculty member of every stored session has a user document.\<close>

definition faculty_known :: "db \<Rightarrow> bool" where
  "faculty_known d = (\<forall>s\<in>set (sessions d). findById_user (s_faculty s) (users d) \<noteq> None)"

section \<open>The records of one subject in a student's history\<close>

text \<open>
  The rows whose populated subject has the identifier \<open>k\<close>, the number of rows with a
  given status, and the entry that counting a list of rows into a tally gives.
\<close>

definition subject_rows :: "string \<Rightarrow> student_row list \<Rightarrow> student_row list" where
  "subject_rows k rows = filter (\<lambda>r. map_option sub_id (r_subject r) = Some k) rows"

definition count_status :: "att_status \<Rightarrow> student_row list \<Rightarrow> nat" where
  "count_status st rows = length (filter (\<lambda>r. a_status (r_doc r) = st) rows)"

definition tally_rows :: "tally \<Rightarrow> student_row list \<Rightarrow> tally" where
  "tally_rows t rows = fold (\<lambda>r. count_record (r_doc r)) rows t"

section \<open>A small store for concrete runs\<close>

text \<open>
  One faculty member who opens a session for division A of CSE, semester 3; a second
  faculty member; one active student of that cohort, one student of another cohort and
  one inactive student.
\<close>

definition ex_fid :: oid where "ex_fid = ''64a1f0000000000000000001''"
definition ex_fid2 :: oid where "ex_fid2 = ''64a1f0000000000000000002''"
definition ex_stu1 :: oid where "ex_stu1 = ''64a1f0000000000000000011''"
definition ex_stu2 :: oid where "ex_stu2 = ''64a1f0000000000000000012''"
definition ex_stu3 :: oid where "ex_stu3 = ''64a1f0000000000000000013''"
definition ex_subj :: oid where "ex_subj = ''64a1f00000000000000000c1''"
definition ex_nobody :: oid where "ex_nobody = ''64a1f00000000000000000ff''"

text \<open>
  Two strings that pass \<open>isMongoId\<close>: one with the prefix \<open>0x\<close>, which is not an
  ObjectId, and the identifier of the first student in upper case.
\<close>

definition ex_0x :: string where "ex_0x = ''0x64a1f00000000000000011''"
definition ex_STU1 :: string where "ex_STU1 = ''64A1F0000000000000000011''"

definition ex_user :: "oid \<Rightarrow> string \<Rightarrow> string \<Rightarrow> string \<Rightarrow> string \<Rightarrow> int \<Rightarrow> bool \<Rightarrow> user" where
  "ex_user i n r dep dv sem act =
     \<lparr>u_id = i, u_username = n, u_role = r, u_department = dep, u_division = dv,
      u_semester = sem, u_isActive = act, u_enrollmentNumber = ''EN-'' @ n\<rparr>"

definition ex_faculty :: user where
  "ex_faculty = ex_user ex_fid ''asha'' ''faculty'' ''CSE'' ''A'' 0 True"
definition ex_faculty2 :: user where
  "ex_faculty2 = ex_user ex_fid2 ''ravi'' ''faculty'' ''CSE'' ''A'' 0 True"
definition ex_student1 :: user where
  "ex_student1 = ex_user ex_stu1 ''bina'' ''student'' ''CSE'' ''A'' 3 True"
definition ex_student2 :: user where
  "ex_student2 = ex_user ex_stu2 ''chirag'' ''student'' ''ME'' ''B'' 5 True"
definition ex_student3 :: user where
  "ex_student3 = ex_user ex_stu3 ''dev'' ''student'' ''CSE'' ''A'' 3 False"

definition ex_subject :: subject where
  "ex_subject = \<lparr>sub_id = ex_subj, sub_name = ''Algorithms'', sub_code = ''CS301'',
     sub_credits = 4\<rparr>"

definition ex_db0 :: db where
  "ex_db0 = \<lparr>users = [ex_faculty, ex_faculty2, ex_student1, ex_student2, ex_student3],
     subjects = [ex_subject], sessions = [], attendances = []\<rparr>"

definition ex_u :: req_user where
  "ex_u = \<lparr>userId = ex_fid, role = ''faculty''\<rparr>"
definition ex_u2 :: req_user where
  "ex_u2 = \<lparr>userId = ex_fid2, role = ''faculty''\<rparr>"

definition ex_start :: start_body where
  "ex_start = \<lparr>st_subjectId = ex_subj, st_division = ''A'', st_department = ''CSE'',
     st_semester = 3\<rparr>"

definition ex_now :: time where "ex_now = 1700000000000"

definition ex_sid :: string where
  "ex_sid = ''1700000000000_64a1f0000000000000000001_64a1f00000000000000000c1''"

definition ex_session :: session where
  "ex_session = \<lparr>s_sessionId = ex_sid, s_subject = ex_subj,
     s_subjectName = ''Algorithms'', s_faculty = ex_fid,
     s_facultyName = ''asha'', s_date = ex_now, s_startTime = ex_now,
     s_endTime = None, s_division = ''A'', s_department = ''CSE'', s_semester = 3,
     s_totalStudents = 1, s_presentStudents = 0, s_absentStudents = 0, s_status = Active\<rparr>"

definition ex_db1 :: db where
  "ex_db1 = ex_db0\<lparr>sessions := [ex_session]\<rparr>"

definition ex_mark :: "oid \<Rightarrow> string \<Rightarrow> rat option \<Rightarrow> string option \<Rightarrow> mark_body" where
  "ex_mark stu st c r = \<lparr>m_sessionId = ex_sid, m_studentId = stu, m_status = st,
     m_detectionConfidence = c, m_remarks = r\<rparr>"

definition ex_att :: "user \<Rightarrow> att_status \<Rightarrow> rat \<Rightarrow> string \<Rightarrow> attendance" where
  "ex_att s st c r =
     \<lparr>a_student = u_id s, a_studentName = u_username s,
      a_enrollmentNumber = u_enrollmentNumber s, a_subject = ex_subj,
      a_subjectName = ''Algorithms'', a_faculty = ex_fid, a_facultyName = ''asha'',
      a_date = ex_now, a_status = st, a_division = ''A'', a_department = ''CSE'',
      a_semester = 3, a_sessionId = ex_sid, a_detectionConfidence = c, a_remarks = r\<rparr>"

definition ex_open :: "int \<Rightarrow> session" where
  "ex_open t = ex_session\<lparr>s_totalStudents := t\<rparr>"

definition ex_closed :: "int \<Rightarrow> int \<Rightarrow> session" where
  "ex_closed t p = ex_session\<lparr>s_totalStudents := t, s_endTime := Some (ex_now + 3600000),
     s_presentStudents := p, s_absentStudents := t - p, s_status := Completed\<rparr>"

definition ex_db :: "session list \<Rightarrow> attendance list \<Rightarrow> db" where
  "ex_db ss as = ex_db0\<lparr>sessions := ss, attendances := as\<rparr>"

text \<open>
  A record of the second faculty member one day later, an administrator, a student as
  caller, queries without filters, and a store with records of both faculty members.
\<close>

definition ex_att2 :: attendance where
  "ex_att2 = (ex_att ex_student2 Late 0 [])\<lparr>a_faculty := ex_fid2, a_facultyName := ''ravi'',
     a_date := ex_now + 86400000\<rparr>"

definition ex_admin :: req_user where
  "ex_admin = \<lparr>userId = ''64a1f00000000000000000aa'', role = ''admin''\<rparr>"

definition ex_rq :: "string option \<Rightarrow> report_query" where
  "ex_rq f = \<lparr>rq_subjectId = None, rq_division = None, rq_department = None,
     rq_semester = None, rq_startDate = None, rq_endDate = None, rq_facultyId = f\<rparr>"

definition ex_su :: "oid \<Rightarrow> req_user" where
  "ex_su i = \<lparr>userId = i, role = ''student''\<rparr>"

definition ex_q :: student_query where
  "ex_q = \<lparr>q_subjectId = None, q_startDate = None, q_endDate = None\<rparr>"

definition ex_db2 :: db where
  "ex_db2 = ex_db [ex_session]
     [ex_att ex_student1 Present 0 [], ex_att2, ex_att ex_student3 Absent 0 []]"

text \<open>
  Ten records of one student in one subject, one per day: 7 present, 2 late, 1 absent.
\<close>

definition ex_day :: "nat \<Rightarrow> att_status \<Rightarrow> attendance" where
  "ex_day i st = (ex_att ex_student1 st 0 [])
     \<lparr>a_date := ex_now + i * 86400000,
      a_sessionId := show_nat (ex_now + i * 86400000) @ ''_'' @ ex_fid @ ''_'' @ ex_subj\<rparr>"

definition ex_history :: "attendance list" where
  "ex_history = [ex_day 0 Present, ex_day 1 Present, ex_day 2 Late, ex_day 3 Present,
     ex_day 4 Absent, ex_day 5 Present, ex_day 6 Present, ex_day 7 Late, ex_day 8 Present,
     ex_day 9 Present]"

definition ex_db3 :: db where
  "ex_db3 = ex_db [] ex_history"

definition ex_rows :: "student_row list" where
  "ex_rows = map (populate_student_row ex_db3) ex_history"

definition ex_stat :: stat where
  "ex_stat = \<lparr>st_subjectName = ''Algorithms'', st_total = 10, st_present = 7, st_absent = 1,
     st_late = 2, st_percentage = 90, st_status = ''excellent''\<rparr>"

section \<open>Lemmas on the store operations\<close>

lemmas ex_defs = ex_nobody_def ex_0x_def ex_STU1_def ex_fid_def ex_fid2_def ex_stu1_def ex_stu2_def ex_stu3_def ex_subj_def
  ex_user_def ex_faculty_def ex_faculty2_def ex_student1_def ex_student2_def ex_student3_def
  ex_subject_def ex_db0_def ex_u_def ex_u2_def ex_start_def ex_now_def ex_sid_def
  ex_session_def ex_db1_def ex_mark_def ex_att_def ex_open_def ex_closed_def ex_db_def

lemmas eval_defs = session_start_def session_end_def mark_def mark_errors_isEmpty_def
  start_errors_isEmpty_def isMongoId_def isHexadecimal_def isHexDigit_def castObjectId_def
  oid_of_def lower_hex_def parse_status_def or_zero_def
  or_empty_def active_session_def same_pair_def findById_user_def findById_subject_def
  countDocuments_def Let_def

lemma show_nat_ex: "show_nat 1700000000000 = ''1700000000000''"
  by (simp add: show_nat.simps)

lemma length_save_found: "length (save_found P y xs) = length xs"
  by (induction xs) auto

lemma save_found_single:
  "find P xs = Some x \<Longrightarrow> (\<forall>z. P z \<longrightarrow> Q z) \<Longrightarrow> Q y \<Longrightarrow> length (filter Q xs) \<le> 1
   \<Longrightarrow> filter Q (save_found P y xs) = [y]"
proof (induction xs)
  case Nil
  then show ?case by simp
next
  case (Cons a xs)
  show ?case
  proof (cases "P a")
    case True
    with Cons.prems have "Q a" by blast
    with Cons.prems have "filter Q xs = []" by simp
    with True Cons.prems show ?thesis by simp
  next
    case False
    with Cons.prems have f: "find P xs = Some x" by simp
    then have "x \<in> set xs" "P x" by (auto simp: find_Some_iff)
    with Cons.prems have qx: "filter Q xs \<noteq> []" by (auto simp: filter_empty_conv)
    have "\<not> Q a"
    proof
      assume "Q a"
      with Cons.prems have "length (filter Q xs) = 0" by simp
      with qx show False by simp
    qed
    with False Cons.prems f Cons.IH show ?thesis by simp
  qed
qed

lemma save_found_others:
  "P y \<Longrightarrow> filter (\<lambda>a. \<not> P a) (save_found P y xs) = filter (\<lambda>a. \<not> P a) xs"
  by (induction xs) auto

lemma find_None_filter: "find P xs = None \<longleftrightarrow> filter P xs = []"
  by (auto simp: find_None_iff filter_empty_conv)

lemma find_Some_filter: "find P xs = Some x \<Longrightarrow> filter P xs \<noteq> []"
  by (auto simp: find_Some_iff filter_empty_conv)

text \<open>The effect of one successful mark on the records of its own pair.\<close>

lemma mark_cases:
  assumes "mark d u b = Inr (d', r)"
  obtains (upd) old st where
      "find (same_pair (oid_of (m_studentId b)) (m_sessionId b)) (attendances d) = Some old"
      "parse_status (m_status b) = Some st"
      "r = Updated (old\<lparr>a_status := st,
             a_detectionConfidence := or_zero (m_detectionConfidence b),
             a_remarks := or_empty (m_remarks b)\<rparr>)"
      "d' = d\<lparr>attendances := save_found (same_pair (oid_of (m_studentId b)) (m_sessionId b))
             (old\<lparr>a_status := st,
                a_detectionConfidence := or_zero (m_detectionConfidence b),
                a_remarks := or_empty (m_remarks b)\<rparr>) (attendances d)\<rparr>"
  | (new) a st where
      "find (same_pair (oid_of (m_studentId b)) (m_sessionId b)) (attendances d) = None"
      "parse_status (m_status b) = Some st"
      "r = Created a" "d' = d\<lparr>attendances := attendances d @ [a]\<rparr>"
      "a_student a = oid_of (m_studentId b)" "a_sessionId a = m_sessionId b" "a_status a = st"
      "a_detectionConfidence a = or_zero (m_detectionConfidence b)"
      "a_remarks a = or_empty (m_remarks b)"
  using assms
  by (auto simp: mark_def Let_def castObjectId_def split: if_splits option.splits)

lemma mark_pair:
  assumes m: "mark d u b = Inr (d', r)"
    and b: "oid_of (m_studentId b) = stu" "m_sessionId b = sid"
    and one: "length (pair_records stu sid d) \<le> 1"
  shows "\<exists>a. pair_records stu sid d' = [a] \<and> carries b a
           \<and> other_records stu sid d' = other_records stu sid d
           \<and> (if pair_records stu sid d = []
               then r = Created a \<and> attendances d' = attendances d @ [a]
               else r = Updated a \<and> length (attendances d') = length (attendances d))"
  using m
proof (cases rule: mark_cases)
  case (upd old st)
  let ?P = "same_pair stu sid"
  let ?a = "old\<lparr>a_status := st,
             a_detectionConfidence := or_zero (m_detectionConfidence b),
             a_remarks := or_empty (m_remarks b)\<rparr>"
  from upd(1) b have f: "find ?P (attendances d) = Some old" by simp
  then have "?P old" by (auto simp: find_Some_iff)
  then have pa: "?P ?a" by (simp add: same_pair_def)
  from one have one': "length (filter ?P (attendances d)) \<le> 1" by (simp add: pair_records_def)
  have 1: "pair_records stu sid d' = [?a]"
    using save_found_single[OF f _ pa one'] upd(4) b by (simp add: pair_records_def)
  have 2: "other_records stu sid d' = other_records stu sid d"
    using save_found_others[of ?P ?a "attendances d"] pa upd(4) b by (simp add: other_records_def)
  have 3: "pair_records stu sid d \<noteq> []"
    using find_Some_filter[OF f] by (simp add: pair_records_def)
  have 4: "length (attendances d') = length (attendances d)"
    using upd(4) by (simp add: length_save_found)
  have 5: "carries b ?a" using upd(2) by (simp add: carries_def)
  from 1 2 3 4 5 upd(3) show ?thesis by auto
next
  case (new a st)
  let ?P = "same_pair stu sid"
  from new(1) b have e: "filter ?P (attendances d) = []" by (simp add: find_None_filter)
  have pa: "?P a" using new b by (simp add: same_pair_def)
  have 1: "pair_records stu sid d' = [a]" using new(4) e pa by (simp add: pair_records_def)
  have 2: "other_records stu sid d' = other_records stu sid d"
    using new(4) pa by (simp add: other_records_def)
  have 5: "carries b a" using new by (simp add: carries_def)
  from 1 2 5 e new(3,4) show ?thesis by (auto simp: pair_records_def)
qed

text \<open>
  At most one record per pair is an invariant of the store: a successful mark keeps it
  for every pair, and the other handlers do not write attendance records.
\<close>

lemma pair_records_other:
  "(stu', sid') \<noteq> (stu, sid) \<Longrightarrow>
   pair_records stu' sid' d = filter (same_pair stu' sid') (other_records stu sid d)"
  by (auto simp: pair_records_def other_records_def same_pair_def intro: filter_cong)

lemma mark_keeps_pairs_single:
  assumes m: "mark d u b = Inr (d', r)"
    and inv: "\<forall>stu sid. length (pair_records stu sid d) \<le> 1"
  shows "\<forall>stu sid. length (pair_records stu sid d') \<le> 1"
proof (intro allI)
  fix stu sid
  from inv have one: "length (pair_records (oid_of (m_studentId b)) (m_sessionId b) d) \<le> 1" by blast
  from mark_pair[OF m refl refl one] obtain a where
    a: "pair_records (oid_of (m_studentId b)) (m_sessionId b) d' = [a]"
      "other_records (oid_of (m_studentId b)) (m_sessionId b) d'
         = other_records (oid_of (m_studentId b)) (m_sessionId b) d"
    by blast
  show "length (pair_records stu sid d') \<le> 1"
  proof (cases "(stu, sid) = (oid_of (m_studentId b), m_sessionId b)")
    case True
    with a(1) show ?thesis by simp
  next
    case False
    from pair_records_other[OF False, of d'] pair_records_other[OF False, of d] a(2)
    have "pair_records stu sid d' = pair_records stu sid d" by simp
    with inv show ?thesis by simp
  qed
qed

section \<open>Marking twice is an update\<close>

text \<open>
  Claim C1. Take any non-empty sequence of mark requests for one (student, session) pair
  that all succeed, run on a store that holds at most one record of the pair; the student
  of the pair is the ObjectId the \<open>studentId\<close> strings denote. Afterwards the store
  holds exactly one record of the pair, and it carries the status, the confidence and
  the remark of the last request (a missing confidence as 0, a missing remark as the
  empty string). The records of all other pairs are as before. Every answer after the
  first is an update; the first is a creation exactly when the store had no record of the
  pair, and then the collection has grown by that one record; otherwise it has not
  grown. In the run after the theorem the second request spells the identifier in upper
  case.
\<close>

theorem mark_all_pair:
  assumes "mark_all d calls = Inr (d', rs)" "calls \<noteq> []"
    "\<forall>c\<in>set calls. oid_of (m_studentId (snd c)) = stu \<and> m_sessionId (snd c) = sid"
    "length (pair_records stu sid d) \<le> 1"
  shows "\<exists>a. pair_records stu sid d' = [a] \<and> carries (snd (last calls)) a
           \<and> other_records stu sid d' = other_records stu sid d
           \<and> length rs = length calls
           \<and> list_all is_update (tl rs)
           \<and> is_update (hd rs) = (pair_records stu sid d \<noteq> [])
           \<and> length (attendances d') =
               length (attendances d) + (if pair_records stu sid d = [] then 1 else 0)"
  using assms
proof (induction calls arbitrary: d rs)
  case Nil
  then show ?case by simp
next
  case (Cons c cs)
  obtain u b where c: "c = (u, b)" by (cases c)
  from Cons.prems(1) c obtain d1 r1 where m1: "mark d u b = Inr (d1, r1)"
    by (auto split: sum.splits)
  from Cons.prems(1) c m1 obtain rs1 where r1: "mark_all d1 cs = Inr (d', rs1)" "rs = r1 # rs1"
    by (auto split: sum.splits)
  from Cons.prems(3) c have b: "oid_of (m_studentId b) = stu" "m_sessionId b = sid" by auto
  from mark_pair[OF m1 b Cons.prems(4)] obtain a1 where a1:
    "pair_records stu sid d1 = [a1]" "carries b a1"
    "other_records stu sid d1 = other_records stu sid d"
    "if pair_records stu sid d = []
       then r1 = Created a1 \<and> attendances d1 = attendances d @ [a1]
       else r1 = Updated a1 \<and> length (attendances d1) = length (attendances d)"
    by blast
  have hd1: "is_update r1 = (pair_records stu sid d \<noteq> [])"
    using a1(4) by (auto simp: is_update_def split: if_splits)
  have len1: "length (attendances d1) =
      length (attendances d) + (if pair_records stu sid d = [] then 1 else 0)"
    using a1(4) by (auto split: if_splits)
  show ?case
  proof (cases "cs = []")
    case True
    with r1 have "d' = d1" "rs = [r1]" by auto
    with a1 hd1 len1 True c show ?thesis by auto
  next
    case False
    from Cons.prems(3) have same: "\<forall>c\<in>set cs. oid_of (m_studentId (snd c)) = stu \<and> m_sessionId (snd c) = sid"
      by simp
    from a1(1) have one1: "length (pair_records stu sid d1) \<le> 1" by simp
    from Cons.IH[OF r1(1) False same one1] obtain a where a:
      "pair_records stu sid d' = [a]" "carries (snd (last cs)) a"
      "other_records stu sid d' = other_records stu sid d1"
      "length rs1 = length cs" "list_all is_update (tl rs1)"
      "is_update (hd rs1) = (pair_records stu sid d1 \<noteq> [])"
      "length (attendances d') =
         length (attendances d1) + (if pair_records stu sid d1 = [] then 1 else 0)"
      by blast
    from a(4) False have ne: "rs1 \<noteq> []" by auto
    with a(5,6) a1(1) have all: "list_all is_update rs1" by (cases rs1) auto
    from a a1 hd1 len1 False all r1(2) show ?thesis by auto
  qed
qed

theorem mark_all_pair_witness:
  "mark_all ex_db1
     [(ex_u, ex_mark ex_stu1 ''present'' (Some (9/10)) (Some ''seen'')),
      (ex_u, ex_mark ex_STU1 ''late'' None None),
      (ex_u, ex_mark ex_stu1 ''absent'' (Some (1/2)) (Some ''left early''))]
   = Inr (ex_db [ex_session] [ex_att ex_student1 Absent (1/2) ''left early''],
          [Created (ex_att ex_student1 Present (9/10) ''seen''),
           Updated (ex_att ex_student1 Late 0 []),
           Updated (ex_att ex_student1 Absent (1/2) ''left early'')])
   \<and> pair_records ex_stu1 ex_sid
         (ex_db [ex_session] [ex_att ex_student1 Absent (1/2) ''left early''])
       = [ex_att ex_student1 Absent (1/2) ''left early'']
   \<and> carries (ex_mark ex_stu1 ''absent'' (Some (1/2)) (Some ''left early''))
         (ex_att ex_student1 Absent (1/2) ''left early'')"
proof -
  let ?calls = "[(ex_u, ex_mark ex_stu1 ''present'' (Some (9/10)) (Some ''seen'')),
      (ex_u, ex_mark ex_STU1 ''late'' None None),
      (ex_u, ex_mark ex_stu1 ''absent'' (Some (1/2)) (Some ''left early''))]"
  have run: "mark_all ex_db1 ?calls
   = Inr (ex_db [ex_session] [ex_att ex_student1 Absent (1/2) ''left early''],
          [Created (ex_att ex_student1 Present (9/10) ''seen''),
           Updated (ex_att ex_student1 Late 0 []),
           Updated (ex_att ex_student1 Absent (1/2) ''left early'')])"
    by (simp add: ex_defs eval_defs)
  have ne: "?calls \<noteq> []" by simp
  have same: "\<forall>c\<in>set ?calls. oid_of (m_studentId (snd c)) = ex_stu1 \<and> m_sessionId (snd c) = ex_sid"
    by (simp add: ex_mark_def ex_stu1_def ex_STU1_def oid_of_def lower_hex_def)
  have init: "length (pair_records ex_stu1 ex_sid ex_db1) \<le> 1"
    by (simp add: pair_records_def ex_db1_def ex_db0_def)
  from mark_all_pair[OF run ne same init] obtain a where
    "pair_records ex_stu1 ex_sid
       (ex_db [ex_session] [ex_att ex_student1 Absent (1/2) ''left early'']) = [a]"
    "carries (snd (last ?calls)) a"
    by blast
  moreover have "pair_records ex_stu1 ex_sid
       (ex_db [ex_session] [ex_att ex_student1 Absent (1/2) ''left early''])
     = [ex_att ex_student1 Absent (1/2) ''left early'']"
    by (simp add: pair_records_def same_pair_def ex_defs)
  ultimately show ?thesis using run by simp
qed


section \<open>Properties of ending a session\<close>

lemma find_save_found:
  "find P xs = Some x \<Longrightarrow> P y \<Longrightarrow> find P (save_found P y xs) = Some y"
  by (induction xs) (auto split: if_splits)

lemma find_SomeD: "find P xs = Some x \<Longrightarrow> P x \<and> x \<in> set xs"
  by (auto simp: find_Some_iff)

lemma session_end_Inr:
  assumes "session_end d u sid now = Inr (d', s')"
  obtains s where "find (active_session sid (userId u)) (sessions d) = Some s"
    "s' = s\<lparr>s_endTime := Some now,
            s_presentStudents :=
              int (length (filter (\<lambda>a. a_sessionId a = sid \<and> a_status a = Present)
                (attendances d))),
            s_absentStudents := s_totalStudents s -
              int (length (filter (\<lambda>a. a_sessionId a = sid \<and> a_status a = Present)
                (attendances d))),
            s_status := Completed\<rparr>"
    "d' = d\<lparr>sessions := save_found (active_session sid (userId u)) s' (sessions d)\<rparr>"
    "s_sessionId s = sid" "s_faculty s = userId u" "s_status s = Active"
proof -
  from assms obtain s where s: "find (active_session sid (userId u)) (sessions d) = Some s"
    by (auto simp: session_end_def Let_def split: option.splits)
  from find_SomeD[OF s] have "active_session sid (userId u) s" by simp
  with s assms that show ?thesis
    by (auto simp: session_end_def Let_def countDocuments_def active_session_def)
qed

text \<open>
  Claim C3. When ending a session succeeds on the session \<open>s\<close> that the lookup
  finds, the session sent back has \<open>presentStudents\<close> equal to the number of
  attendance records with this session identifier and status present,
  \<open>absentStudents\<close> equal to \<open>totalStudents\<close> of \<open>s\<close> minus that number (late and
  absent records are not counted anywhere), \<open>endTime\<close> the time of the request, status
  completed, and \<open>totalStudents\<close> as \<open>s\<close> had it. The stored session is replaced by
  this one and no attendance record changes.
\<close>

theorem session_end_counts:
  assumes "session_end d u sid now = Inr (d', s')"
  shows "\<exists>s. find (active_session sid (userId u)) (sessions d) = Some s
       \<and> s_presentStudents s' =
           int (length (filter (\<lambda>a. a_sessionId a = sid \<and> a_status a = Present) (attendances d)))
       \<and> s_absentStudents s' = s_totalStudents s - s_presentStudents s'
       \<and> s_endTime s' = Some now
       \<and> s_status s' = Completed
       \<and> s_totalStudents s' = s_totalStudents s
       \<and> s_sessionId s' = sid
       \<and> sessions d' = save_found (active_session sid (userId u)) s' (sessions d)
       \<and> attendances d' = attendances d"
  using assms by (rule session_end_Inr) simp

theorem session_end_counts_witness:
  "session_end
     (ex_db [ex_open 3] [ex_att ex_student1 Present 0 [], ex_att ex_student2 Late 0 [],
        ex_att ex_student3 Absent 0 []])
     ex_u ex_sid (ex_now + 3600000)
   = Inr (ex_db [ex_closed 3 1] [ex_att ex_student1 Present 0 [], ex_att ex_student2 Late 0 [],
        ex_att ex_student3 Absent 0 []], ex_closed 3 1)
   \<and> s_presentStudents (ex_closed 3 1) = 1 \<and> s_absentStudents (ex_closed 3 1) = 2
   \<and> s_totalStudents (ex_closed 3 1) = 3 \<and> s_status (ex_closed 3 1) = Completed
   \<and> s_endTime (ex_closed 3 1) = Some (ex_now + 3600000)"
proof -
  have run: "session_end
     (ex_db [ex_open 3] [ex_att ex_student1 Present 0 [], ex_att ex_student2 Late 0 [],
        ex_att ex_student3 Absent 0 []])
     ex_u ex_sid (ex_now + 3600000)
   = Inr (ex_db [ex_closed 3 1] [ex_att ex_student1 Present 0 [], ex_att ex_student2 Late 0 [],
        ex_att ex_student3 Absent 0 []], ex_closed 3 1)"
    by (simp add: ex_defs eval_defs)
  from session_end_counts[OF run] run show ?thesis
    by (auto simp: ex_defs active_session_def)
qed

text \<open>
  The session identifiers in the store: marking and ending a session keep them, and
  starting a session adds the identifier composed from the clock, the caller and the
  subject, whether or not a stored session has it already.
\<close>

lemma map_save_found:
  "(\<And>x. P x \<Longrightarrow> f x = f y) \<Longrightarrow> map f (save_found P y xs) = map f xs"
  by (induction xs) auto

lemma session_end_keeps_ids:
  assumes "session_end d u sid now = Inr (d', s')"
  shows "map s_sessionId (sessions d') = map s_sessionId (sessions d)"
  using assms
proof (rule session_end_Inr)
  fix s
  assume "s' = s\<lparr>s_endTime := Some now,
            s_presentStudents :=
              int (length (filter (\<lambda>a. a_sessionId a = sid \<and> a_status a = Present)
                (attendances d))),
            s_absentStudents := s_totalStudents s -
              int (length (filter (\<lambda>a. a_sessionId a = sid \<and> a_status a = Present)
                (attendances d))),
            s_status := Completed\<rparr>"
    and d': "d' = d\<lparr>sessions := save_found (active_session sid (userId u)) s' (sessions d)\<rparr>"
    and "s_sessionId s = sid"
  then have "s_sessionId s' = sid" by simp
  then have "map s_sessionId (save_found (active_session sid (userId u)) s' (sessions d))
      = map s_sessionId (sessions d)"
    by (intro map_save_found) (simp add: active_session_def)
  with d' show ?thesis by simp
qed

lemma mark_keeps_sessions:
  "mark d u b = Inr (d', r) \<Longrightarrow> sessions d' = sessions d"
  by (erule mark_cases) simp_all

lemma session_start_adds_id:
  assumes "session_start d u b now = Inr (d', s)"
  shows "sessions d' = sessions d @ [s]"
    and "s_sessionId s = show_nat now @ ''_'' @ userId u @ ''_'' @ st_subjectId b"
    and "s_status s = Active"
  using assms
  by (auto simp: session_start_def Let_def split: if_splits option.splits)

text \<open>
  The faculty member of every session has a user document: starting a session checks it
  for the new session, and no handler removes a user or changes the faculty of a session.
\<close>

lemma mark_keeps_users:
  "mark d u b = Inr (d', r) \<Longrightarrow> users d' = users d"
  by (erule mark_cases) simp_all

lemma faculty_known_mark:
  "mark d u b = Inr (d', r) \<Longrightarrow> faculty_known d \<Longrightarrow> faculty_known d'"
  by (simp add: faculty_known_def mark_keeps_users mark_keeps_sessions)

lemma faculty_known_start:
  assumes "session_start d u b now = Inr (d', s)" and "faculty_known d"
  shows "faculty_known d'"
  using assms
  by (auto simp: session_start_def Let_def faculty_known_def split: if_splits option.splits)

lemma faculty_known_end:
  assumes "session_end d u sid now = Inr (d', s')" and k: "faculty_known d"
  shows "faculty_known d'"
  using assms(1)
proof (rule session_end_Inr)
  fix s
  assume s': "s' = s\<lparr>s_endTime := Some now,
            s_presentStudents :=
              int (length (filter (\<lambda>a. a_sessionId a = sid \<and> a_status a = Present)
                (attendances d))),
            s_absentStudents := s_totalStudents s -
              int (length (filter (\<lambda>a. a_sessionId a = sid \<and> a_status a = Present)
                (attendances d))),
            s_status := Completed\<rparr>"
    and d': "d' = d\<lparr>sessions := save_found (active_session sid (userId u)) s' (sessions d)\<rparr>"
    and f: "s_faculty s = userId u"
  from s' f have "s_faculty s' = userId u" by simp
  then have "map s_faculty (save_found (active_session sid (userId u)) s' (sessions d))
      = map s_faculty (sessions d)"
    by (intro map_save_found) (simp add: active_session_def)
  then have "set (map s_faculty (sessions d')) = set (map s_faculty (sessions d))"
    by (simp add: d')
  then have img: "s_faculty ` set (sessions d') = s_faculty ` set (sessions d)"
    by simp
  show ?thesis
    unfolding faculty_known_def
  proof
    fix x
    assume "x \<in> set (sessions d')"
    then have "s_faculty x \<in> s_faculty ` set (sessions d)" using img by blast
    then obtain x0 where "x0 \<in> set (sessions d)" "s_faculty x0 = s_faculty x" by auto
    with k have "findById_user (s_faculty x) (users d) \<noteq> None"
      by (auto simp: faculty_known_def)
    then show "findById_user (s_faculty x) (users d') \<noteq> None" by (simp add: d')
  qed
qed

text \<open>
  When the session identifier names at most one stored session, ending is possible once:
  ending answers not-found exactly when no session matches the session identifier, the
  caller as faculty, and status active, and otherwise succeeds; after a successful end
  every further end request for this identifier, by any caller at any time, answers
  not-found. A caller who is not the faculty of any session with this identifier gets
  not-found.
\<close>

lemma session_end_once:
  "(session_end d u sid now = Inl NotFoundError
      \<longleftrightarrow> find (active_session sid (userId u)) (sessions d) = None)
   \<and> (find (active_session sid (userId u)) (sessions d) \<noteq> None
      \<longrightarrow> (\<exists>d1 s1. session_end d u sid now = Inr (d1, s1)))
   \<and> (length (filter (\<lambda>s. s_sessionId s = sid) (sessions d)) \<le> 1
      \<and> session_end d u sid now = Inr (d', s')
      \<longrightarrow> session_end d' v sid now' = Inl NotFoundError)
   \<and> ((\<forall>s\<in>set (sessions d). s_sessionId s = sid \<longrightarrow> s_faculty s \<noteq> userId u)
      \<longrightarrow> session_end d u sid now = Inl NotFoundError)"
proof -
  have a: "session_end d u sid now = Inl NotFoundError
      \<longleftrightarrow> find (active_session sid (userId u)) (sessions d) = None"
    by (simp add: session_end_def Let_def split: option.splits)
  have b: "find (active_session sid (userId u)) (sessions d) \<noteq> None
      \<longrightarrow> (\<exists>d1 s1. session_end d u sid now = Inr (d1, s1))"
    by (auto simp: session_end_def Let_def split: option.splits)
  have c: "session_end d' v sid now' = Inl NotFoundError"
    if one: "length (filter (\<lambda>s. s_sessionId s = sid) (sessions d)) \<le> 1"
      and run: "session_end d u sid now = Inr (d', s')"
  proof -
    from run obtain s where s: "find (active_session sid (userId u)) (sessions d) = Some s"
      and s': "s_status s' = Completed" "s_sessionId s' = sid"
      and d': "sessions d' = save_found (active_session sid (userId u)) s' (sessions d)"
      by (rule session_end_Inr) simp
    have "filter (\<lambda>s. s_sessionId s = sid) (sessions d') = [s']"
      unfolding d'
      by (rule save_found_single[OF s _ _ one]) (simp_all add: active_session_def s')
    then have "\<forall>x\<in>set (sessions d'). s_sessionId x = sid \<longrightarrow> x = s'"
      using filter_set[of "\<lambda>s. s_sessionId s = sid" "sessions d'"] by auto
    with s' have "find (active_session sid (userId v)) (sessions d') = None"
      by (auto simp: find_None_iff active_session_def)
    then show ?thesis by (simp add: session_end_def)
  qed
  have e: "session_end d u sid now = Inl NotFoundError"
    if "\<forall>s\<in>set (sessions d). s_sessionId s = sid \<longrightarrow> s_faculty s \<noteq> userId u"
  proof -
    from that have "find (active_session sid (userId u)) (sessions d) = None"
      by (auto simp: find_None_iff active_session_def)
    then show ?thesis by (simp add: session_end_def)
  qed
  from a b c e show ?thesis by blast
qed


text \<open>
  Claim C4, as amended. After every successful end of a session,
  \<open>absentStudents + presentStudents = totalStudents\<close> holds for the session sent
  back, whatever the statuses of the attendance records are.
\<close>

theorem session_end_sum:
  assumes "session_end d u sid now = Inr (d', s')"
  shows "s_absentStudents s' + s_presentStudents s' = s_totalStudents s'"
  using assms by (auto simp: session_end_def Let_def split: option.splits)

theorem session_end_sum_witness:
  "session_end
     (ex_db [ex_open 3] [ex_att ex_student1 Present 0 [], ex_att ex_student2 Late 0 []])
     ex_u ex_sid (ex_now + 3600000)
   = Inr (ex_db [ex_closed 3 1] [ex_att ex_student1 Present 0 [], ex_att ex_student2 Late 0 []],
          ex_closed 3 1)
   \<and> s_absentStudents (ex_closed 3 1) + s_presentStudents (ex_closed 3 1)
       = s_totalStudents (ex_closed 3 1)"
proof -
  have run: "session_end
     (ex_db [ex_open 3] [ex_att ex_student1 Present 0 [], ex_att ex_student2 Late 0 []])
     ex_u ex_sid (ex_now + 3600000)
   = Inr (ex_db [ex_closed 3 1] [ex_att ex_student1 Present 0 [], ex_att ex_student2 Late 0 []],
          ex_closed 3 1)"
    by (simp add: ex_defs eval_defs)
  from session_end_sum[OF run] run show ?thesis by simp
qed

text \<open>
  The claim C4 as stated fails: here a session of two students has one record present
  and one record late, and the sum of the two counts after the end is the total.
\<close>

theorem late_record_sum_counterexample:
  "a_status (ex_att ex_student2 Late 0 []) = Late
   \<and> a_sessionId (ex_att ex_student2 Late 0 []) = ex_sid
   \<and> session_end (ex_db [ex_open 2] [ex_att ex_student1 Present 0 [], ex_att ex_student2 Late 0 []])
       ex_u ex_sid (ex_now + 3600000)
     = Inr (ex_db [ex_closed 2 1] [ex_att ex_student1 Present 0 [], ex_att ex_student2 Late 0 []],
            ex_closed 2 1)
   \<and> s_absentStudents (ex_closed 2 1) + s_presentStudents (ex_closed 2 1)
       = s_totalStudents (ex_closed 2 1)"
  by (simp add: ex_defs eval_defs)


section \<open>What a mark request needs\<close>

lemma parse_status_valid: "mark_errors_isEmpty b \<Longrightarrow> \<exists>st. parse_status (m_status b) = Some st"
  by (auto simp: mark_errors_isEmpty_def)

lemma castObjectId_Some: "castObjectId s = Some i \<Longrightarrow> i = oid_of s"
  by (simp add: castObjectId_def split: if_splits)

text \<open>
  Claim C6, as amended. A request that does not pass the validators of the route is
  answered with the validation error. For a request that passes them: the answer is the
  invalid-session error exactly when no session matches the session identifier, the
  caller as faculty and status active, hence whenever every session with this
  identifier is completed or belongs to another faculty member; given such a session and
  a \<open>studentId\<close> that is an ObjectId, the answer is the invalid-student error exactly
  when no user has this ObjectId or the user's role is not student. A request that
  succeeds (creates or updates a record) passed the validators, found such a session,
  and its \<open>studentId\<close> is the ObjectId of a user with role student.
\<close>

theorem mark_preconditions:
  "(\<not> mark_errors_isEmpty b \<longrightarrow> mark d u b = Inl ValidationError)
   \<and> (mark_errors_isEmpty b \<longrightarrow>
      (mark d u b = Inl InvalidSessionError
         \<longleftrightarrow> find (active_session (m_sessionId b) (userId u)) (sessions d) = None))
   \<and> (mark_errors_isEmpty b
        \<and> (\<forall>s\<in>set (sessions d). s_sessionId s = m_sessionId b
              \<longrightarrow> s_status s = Completed \<or> s_faculty s \<noteq> userId u)
      \<longrightarrow> mark d u b = Inl InvalidSessionError)
   \<and> (mark_errors_isEmpty b
        \<and> find (active_session (m_sessionId b) (userId u)) (sessions d) \<noteq> None
        \<and> castObjectId (m_studentId b) = Some i
      \<longrightarrow> (mark d u b = Inl InvalidStudentError
             \<longleftrightarrow> (\<forall>st. findById_user i (users d) = Some st \<longrightarrow> u_role st \<noteq> ''student'')))
   \<and> (mark d u b = Inr (d', r)
      \<longrightarrow> mark_errors_isEmpty b
          \<and> find (active_session (m_sessionId b) (userId u)) (sessions d) \<noteq> None
          \<and> castObjectId (m_studentId b) = Some (oid_of (m_studentId b))
          \<and> (\<exists>st. findById_user (oid_of (m_studentId b)) (users d) = Some st
                 \<and> u_role st = ''student''))"
proof -
  have v: "mark d u b = Inl ValidationError" if "\<not> mark_errors_isEmpty b"
    using that by (simp add: mark_def)
  have a: "mark d u b = Inl InvalidSessionError
         \<longleftrightarrow> find (active_session (m_sessionId b) (userId u)) (sessions d) = None"
    if v: "mark_errors_isEmpty b"
  proof -
    from parse_status_valid[OF v] obtain st where "parse_status (m_status b) = Some st" ..
    with v show ?thesis
      by (auto simp: mark_def Let_def split: option.splits)
  qed
  have b: "mark d u b = Inl InvalidSessionError"
    if v: "mark_errors_isEmpty b"
      and n: "\<forall>s\<in>set (sessions d). s_sessionId s = m_sessionId b
              \<longrightarrow> s_status s = Completed \<or> s_faculty s \<noteq> userId u"
  proof -
    from n have "find (active_session (m_sessionId b) (userId u)) (sessions d) = None"
      by (auto simp: find_None_iff active_session_def)
    with a[OF v] show ?thesis by simp
  qed
  have c: "mark d u b = Inl InvalidStudentError
             \<longleftrightarrow> (\<forall>st. findById_user i (users d) = Some st \<longrightarrow> u_role st \<noteq> ''student'')"
    if v: "mark_errors_isEmpty b"
      and s: "find (active_session (m_sessionId b) (userId u)) (sessions d) \<noteq> None"
      and i: "castObjectId (m_studentId b) = Some i"
  proof -
    from parse_status_valid[OF v] obtain st where "parse_status (m_status b) = Some st" ..
    with v s i show ?thesis
      by (auto simp: mark_def Let_def split: option.splits)
  qed
  have e: "mark_errors_isEmpty b
          \<and> find (active_session (m_sessionId b) (userId u)) (sessions d) \<noteq> None
          \<and> castObjectId (m_studentId b) = Some (oid_of (m_studentId b))
          \<and> (\<exists>st. findById_user (oid_of (m_studentId b)) (users d) = Some st
                 \<and> u_role st = ''student'')"
    if "mark d u b = Inr (d', r)"
    using that
    by (auto simp: mark_def Let_def split: option.splits if_splits dest: castObjectId_Some)
  show ?thesis
  proof (intro conjI impI)
    assume "mark_errors_isEmpty b
        \<and> (\<forall>s\<in>set (sessions d). s_sessionId s = m_sessionId b
              \<longrightarrow> s_status s = Completed \<or> s_faculty s \<noteq> userId u)"
    then show "mark d u b = Inl InvalidSessionError" using b by blast
  next
    assume "mark_errors_isEmpty b
        \<and> find (active_session (m_sessionId b) (userId u)) (sessions d) \<noteq> None
        \<and> castObjectId (m_studentId b) = Some i"
    then show "mark d u b = Inl InvalidStudentError
             \<longleftrightarrow> (\<forall>st. findById_user i (users d) = Some st \<longrightarrow> u_role st \<noteq> ''student'')"
      using c by blast
  qed (use v a e in simp_all)
qed

text \<open>
  The claim C6 as stated fails at two requests. The first has a status that is not one of
  the three names, on a store without sessions: no session matches, and the answer is the
  validation error, not the invalid-session error. The second passes the validators with
  a \<open>studentId\<close> that has the prefix \<open>0x\<close>, for an active session of the caller: no user
  has this identifier, and the answer is the 500 of the \<open>catch\<close> block, not the
  invalid-student error.
\<close>

theorem mark_preconditions_counterexample:
  "find (active_session ex_sid (userId ex_u)) (sessions ex_db0) = None
   \<and> mark ex_db0 ex_u (ex_mark ex_stu1 ''excused'' None None) = Inl ValidationError
   \<and> mark_errors_isEmpty (ex_mark ex_0x ''present'' None None)
   \<and> find (active_session ex_sid (userId ex_u)) (sessions ex_db1) = Some ex_session
   \<and> findById_user ex_0x (users ex_db1) = None
   \<and> mark ex_db1 ex_u (ex_mark ex_0x ''present'' None None) = Inl ServerError"
  by (simp add: ex_defs eval_defs)

theorem mark_preconditions_witness:
  "mark ex_db0 ex_u (ex_mark ex_stu1 ''excused'' None None) = Inl ValidationError
   \<and> mark (ex_db [ex_closed 1 0] []) ex_u (ex_mark ex_stu1 ''present'' None None)
     = Inl InvalidSessionError
   \<and> mark ex_db1 ex_u2 (ex_mark ex_stu1 ''present'' None None) = Inl InvalidSessionError
   \<and> mark ex_db1 ex_u (ex_mark ex_fid2 ''present'' None None) = Inl InvalidStudentError
   \<and> mark ex_db1 ex_u (ex_mark ex_nobody ''present'' None None) = Inl InvalidStudentError
   \<and> mark ex_db1 ex_u (ex_mark ex_STU1 ''present'' None None)
       = Inr (ex_db [ex_session] [ex_att ex_student1 Present 0 []],
              Created (ex_att ex_student1 Present 0 []))
   \<and> oid_of ex_STU1 = ex_stu1
   \<and> findById_user ex_stu1 (users ex_db1) = Some ex_student1
   \<and> u_role ex_student1 = ''student''"
proof -
  let ?bad = "ex_mark ex_stu1 ''excused'' None None"
  let ?b = "ex_mark ex_stu1 ''present'' None None"
  let ?b3 = "ex_mark ex_fid2 ''present'' None None"
  let ?b4 = "ex_mark ex_nobody ''present'' None None"
  let ?b5 = "ex_mark ex_STU1 ''present'' None None"
  have nv: "\<not> mark_errors_isEmpty ?bad"
    by (simp add: ex_defs eval_defs)
  have v: "mark_errors_isEmpty ?b" "mark_errors_isEmpty ?b3" "mark_errors_isEmpty ?b4"
    by (simp_all add: ex_defs eval_defs)
  have closed: "\<forall>s\<in>set (sessions (ex_db [ex_closed 1 0] [])). s_sessionId s = m_sessionId ?b
      \<longrightarrow> s_status s = Completed \<or> s_faculty s \<noteq> userId ex_u"
    by (simp add: ex_defs)
  have other: "\<forall>s\<in>set (sessions ex_db1). s_sessionId s = m_sessionId ?b
      \<longrightarrow> s_status s = Completed \<or> s_faculty s \<noteq> userId ex_u2"
    by (simp add: ex_defs)
  have act: "find (active_session (m_sessionId ?b3) (userId ex_u)) (sessions ex_db1) \<noteq> None"
    "find (active_session (m_sessionId ?b4) (userId ex_u)) (sessions ex_db1) \<noteq> None"
    by (simp_all add: ex_defs active_session_def)
  have cast: "castObjectId (m_studentId ?b3) = Some ex_fid2"
    "castObjectId (m_studentId ?b4) = Some ex_nobody"
    by (simp_all add: ex_defs eval_defs)
  have nostu3: "\<forall>st. findById_user ex_fid2 (users ex_db1) = Some st
      \<longrightarrow> u_role st \<noteq> ''student''"
    by (simp add: ex_defs findById_user_def)
  have nostu4: "\<forall>st. findById_user ex_nobody (users ex_db1) = Some st
      \<longrightarrow> u_role st \<noteq> ''student''"
    by (simp add: ex_defs findById_user_def)
  have run: "mark ex_db1 ex_u ?b5
       = Inr (ex_db [ex_session] [ex_att ex_student1 Present 0 []],
              Created (ex_att ex_student1 Present 0 []))"
    by (simp add: ex_defs eval_defs)
  note invalid = conjunct1[OF mark_preconditions]
  note closed_or_foreign = conjunct2[THEN conjunct2, THEN conjunct1, OF mark_preconditions]
  note student_check =
    conjunct2[THEN conjunct2, THEN conjunct2, THEN conjunct1, OF mark_preconditions]
  note on_success =
    conjunct2[THEN conjunct2, THEN conjunct2, THEN conjunct2, OF mark_preconditions]
  have 0: "mark ex_db0 ex_u ?bad = Inl ValidationError"
    by (rule mp[OF invalid nv])
  have 1: "mark (ex_db [ex_closed 1 0] []) ex_u ?b = Inl InvalidSessionError"
    by (rule mp[OF closed_or_foreign conjI[OF v(1) closed]])
  have 2: "mark ex_db1 ex_u2 ?b = Inl InvalidSessionError"
    by (rule mp[OF closed_or_foreign conjI[OF v(1) other]])
  have 3: "mark ex_db1 ex_u ?b3 = Inl InvalidStudentError"
    by (rule iffD2[OF mp[OF student_check conjI[OF v(2) conjI[OF act(1) cast(1)]]] nostu3])
  have 4: "mark ex_db1 ex_u ?b4 = Inl InvalidStudentError"
    by (rule iffD2[OF mp[OF student_check conjI[OF v(3) conjI[OF act(2) cast(2)]]] nostu4])
  from mp[OF on_success run]
  obtain st where st: "findById_user (oid_of (m_studentId ?b5)) (users ex_db1) = Some st"
    "u_role st = ''student''"
    by (elim conjE exE)
  have 5: "oid_of (m_studentId ?b5) = ex_stu1" "oid_of ex_STU1 = ex_stu1"
    by (simp_all add: ex_defs oid_of_def lower_hex_def)
  have 6: "findById_user ex_stu1 (users ex_db1) = Some ex_student1"
    by (simp add: ex_defs findById_user_def)
  with st 5 have 7: "u_role ex_student1 = ''student''" by simp
  from 0 1 2 3 4 run 5 6 7 show ?thesis by (simp only: simp_thms)
qed

text \<open>
  Claim C10. When a successful mark finds a record of the pair (the student being the
  ObjectId the \<open>studentId\<close> denotes), the answer is an update and the stored record of
  the pair is the old one with three fields overwritten: the status of the request, the
  confidence of the request, or 0 when the request has none (or has 0), and the remark of
  the request, or the empty string when it has none. Nothing of the old confidence or
  remark is kept.
\<close>

theorem mark_update_overwrites:
  assumes "mark d u b = Inr (d', r)"
    and "find (same_pair (oid_of (m_studentId b)) (m_sessionId b)) (attendances d) = Some old"
  shows "\<exists>new. r = Updated new
     \<and> find (same_pair (oid_of (m_studentId b)) (m_sessionId b)) (attendances d') = Some new
     \<and> a_detectionConfidence new = (case m_detectionConfidence b of None \<Rightarrow> 0 | Some c \<Rightarrow> c)
     \<and> a_remarks new = (case m_remarks b of None \<Rightarrow> [] | Some t \<Rightarrow> t)
     \<and> parse_status (m_status b) = Some (a_status new)
     \<and> new = old\<lparr>a_status := a_status new,
                  a_detectionConfidence := a_detectionConfidence new,
                  a_remarks := a_remarks new\<rparr>"
  using assms(1)
proof (cases rule: mark_cases)
  case (upd old' st)
  let ?P = "same_pair (oid_of (m_studentId b)) (m_sessionId b)"
  let ?new = "old\<lparr>a_status := st,
             a_detectionConfidence := or_zero (m_detectionConfidence b),
             a_remarks := or_empty (m_remarks b)\<rparr>"
  from upd(1) assms(2) have o: "old' = old" by simp
  from find_SomeD[OF assms(2)] have "?P old" by simp
  then have "?P ?new" by (simp add: same_pair_def)
  from find_save_found[OF assms(2) this] upd(4) o
  have 1: "find ?P (attendances d') = Some ?new" by simp
  have 2: "a_detectionConfidence ?new = (case m_detectionConfidence b of None \<Rightarrow> 0 | Some c \<Rightarrow> c)"
    by (simp add: or_zero_def split: option.splits)
  have 3: "a_remarks ?new = (case m_remarks b of None \<Rightarrow> [] | Some t \<Rightarrow> t)"
    by (simp add: or_empty_def split: option.splits)
  from 1 2 3 upd(2,3) o show ?thesis by simp
next
  case (new a st)
  with assms(2) show ?thesis by simp
qed

theorem mark_update_overwrites_witness:
  "mark (ex_db [ex_session] [ex_att ex_student1 Present (9/10) ''seen'']) ex_u
      (ex_mark ex_stu1 ''late'' None None)
    = Inr (ex_db [ex_session] [ex_att ex_student1 Late 0 []],
           Updated (ex_att ex_student1 Late 0 []))
   \<and> find (same_pair ex_stu1 ex_sid) [ex_att ex_student1 Present (9/10) ''seen'']
       = Some (ex_att ex_student1 Present (9/10) ''seen'')
   \<and> a_detectionConfidence (ex_att ex_student1 Present (9/10) ''seen'') = 9/10
   \<and> a_remarks (ex_att ex_student1 Present (9/10) ''seen'') = ''seen''
   \<and> a_detectionConfidence (ex_att ex_student1 Late 0 []) = 0
   \<and> a_remarks (ex_att ex_student1 Late 0 []) = []"
proof -
  let ?d = "ex_db [ex_session] [ex_att ex_student1 Present (9/10) ''seen'']"
  let ?b = "ex_mark ex_stu1 ''late'' None None"
  have run: "mark ?d ex_u ?b
    = Inr (ex_db [ex_session] [ex_att ex_student1 Late 0 []],
           Updated (ex_att ex_student1 Late 0 []))"
    by (simp add: ex_defs eval_defs)
  have old: "find (same_pair (oid_of (m_studentId ?b)) (m_sessionId ?b)) (attendances ?d)
      = Some (ex_att ex_student1 Present (9/10) ''seen'')"
    by (simp add: ex_defs same_pair_def oid_of_def lower_hex_def)
  from mark_update_overwrites[OF run old] obtain new where
    "Updated (ex_att ex_student1 Late 0 []) = Updated new"
    "a_detectionConfidence new = (case m_detectionConfidence ?b of None \<Rightarrow> 0 | Some c \<Rightarrow> c)"
    "a_remarks new = (case m_remarks ?b of None \<Rightarrow> [] | Some t \<Rightarrow> t)"
    by blast
  then have "a_detectionConfidence (ex_att ex_student1 Late 0 []) = 0"
    "a_remarks (ex_att ex_student1 Late 0 []) = []"
    by (simp_all add: ex_mark_def)
  with run old show ?thesis by (simp add: ex_defs same_pair_def oid_of_def lower_hex_def)
qed


lemma find_snoc: "find P xs = None \<Longrightarrow> P a \<Longrightarrow> find P (xs @ [a]) = Some a"
  by (induction xs) (auto split: if_splits)

text \<open>
  A request that passes the validators, for an active session of the caller and the
  ObjectId of a user with role student, stores a record of the pair with the requested
  status when the caller's own user document exists. Nothing else of the student is
  read: neither department, division and semester nor the \<open>isActive\<close> flag.
\<close>

lemma mark_stores:
  assumes v: "mark_errors_isEmpty b"
    and s: "find (active_session (m_sessionId b) (userId u)) (sessions d) = Some s"
    and i: "castObjectId (m_studentId b) = Some i"
    and st: "findById_user i (users d) = Some st" "u_role st = ''student''"
    and f: "findById_user (userId u) (users d) = Some f"
  shows "\<exists>d' r a. mark d u b = Inr (d', r) \<and> (r = Created a \<or> r = Updated a)
           \<and> find (same_pair i (m_sessionId b)) (attendances d') = Some a
           \<and> parse_status (m_status b) = Some (a_status a)"
proof -
  from parse_status_valid[OF v] obtain x where x: "parse_status (m_status b) = Some x" ..
  let ?P = "same_pair i (m_sessionId b)"
  show ?thesis
  proof (cases "find ?P (attendances d)")
    case None
    define a where "a =
      \<lparr>a_student = i, a_studentName = u_username st,
       a_enrollmentNumber = u_enrollmentNumber st, a_subject = s_subject s,
       a_subjectName = s_subjectName s, a_faculty = userId u, a_facultyName = u_username f,
       a_date = s_date s, a_status = x, a_division = s_division s,
       a_department = s_department s, a_semester = s_semester s,
       a_sessionId = m_sessionId b,
       a_detectionConfidence = or_zero (m_detectionConfidence b),
       a_remarks = or_empty (m_remarks b)\<rparr>"
    have run: "mark d u b = Inr (d\<lparr>attendances := attendances d @ [a]\<rparr>, Created a)"
      using v s i st f x None by (simp add: mark_def Let_def a_def)
    have "?P a" by (simp add: same_pair_def a_def)
    from find_snoc[OF None this] have "find ?P (attendances d @ [a]) = Some a" .
    with run x show ?thesis by (auto simp: a_def)
  next
    case (Some old)
    define a where "a = old\<lparr>a_status := x,
        a_detectionConfidence := or_zero (m_detectionConfidence b),
        a_remarks := or_empty (m_remarks b)\<rparr>"
    have run: "mark d u b = Inr (d\<lparr>attendances := save_found ?P a (attendances d)\<rparr>, Updated a)"
      using v s i st f x Some by (simp add: mark_def Let_def a_def)
    from find_SomeD[OF Some] have "?P old" by simp
    then have "?P a" by (simp add: same_pair_def a_def)
    from find_save_found[OF Some this] have "find ?P (save_found ?P a (attendances d)) = Some a" .
    with run x show ?thesis by (auto simp: a_def)
  qed
qed

text \<open>
  Claim C9. On a store where the faculty member of every session has a user document
  (which starting a session checks and every handler keeps), a request that passes the
  validators, for an active session of the caller and the ObjectId of a user with role
  student, succeeds and leaves a record of this student and session with the requested
  status in the store, so status present for a request to mark present: neither the
  cohort of the student nor its \<open>isActive\<close> flag is looked at. In the run below the
  session is opened for a cohort with one active student, so \<open>totalStudents\<close> is 1;
  that student, a student of another department and an inactive student are marked
  present; ending the session then gives 3 present and \<open>absentStudents = -2\<close>.
\<close>

theorem mark_ignores_cohort:
  "(mark_errors_isEmpty b \<and> faculty_known d
      \<and> find (active_session (m_sessionId b) (userId u)) (sessions d) = Some s
      \<and> castObjectId (m_studentId b) = Some i
      \<and> findById_user i (users d) = Some st \<and> u_role st = ''student''
    \<longrightarrow> (\<exists>d' r a. mark d u b = Inr (d', r) \<and> (r = Created a \<or> r = Updated a)
           \<and> find (same_pair i (m_sessionId b)) (attendances d') = Some a
           \<and> a_student a = i \<and> a_sessionId a = m_sessionId b
           \<and> parse_status (m_status b) = Some (a_status a)
           \<and> (m_status b = ''present'' \<longrightarrow> a_status a = Present)))
   \<and> faculty_known ex_db0
   \<and> session_start ex_db0 ex_u ex_start ex_now = Inr (ex_db1, ex_session)
   \<and> s_totalStudents ex_session = 1
   \<and> mark_all ex_db1
       [(ex_u, ex_mark ex_stu1 ''present'' None None),
        (ex_u, ex_mark ex_stu2 ''present'' None None),
        (ex_u, ex_mark ex_stu3 ''present'' None None)]
     = Inr (ex_db [ex_session] [ex_att ex_student1 Present 0 [],
              ex_att ex_student2 Present 0 [], ex_att ex_student3 Present 0 []],
            [Created (ex_att ex_student1 Present 0 []),
             Created (ex_att ex_student2 Present 0 []),
             Created (ex_att ex_student3 Present 0 [])])
   \<and> session_end (ex_db [ex_session] [ex_att ex_student1 Present 0 [],
              ex_att ex_student2 Present 0 [], ex_att ex_student3 Present 0 []])
        ex_u ex_sid (ex_now + 3600000)
     = Inr (ex_db [ex_closed 1 3] [ex_att ex_student1 Present 0 [],
              ex_att ex_student2 Present 0 [], ex_att ex_student3 Present 0 []],
            ex_closed 1 3)
   \<and> s_presentStudents (ex_closed 1 3) = 3
   \<and> s_totalStudents (ex_closed 1 3) = 1
   \<and> s_absentStudents (ex_closed 1 3) = - 2"
proof -
  have a: "\<exists>d' r a. mark d u b = Inr (d', r) \<and> (r = Created a \<or> r = Updated a)
           \<and> find (same_pair i (m_sessionId b)) (attendances d') = Some a
           \<and> a_student a = i \<and> a_sessionId a = m_sessionId b
           \<and> parse_status (m_status b) = Some (a_status a)
           \<and> (m_status b = ''present'' \<longrightarrow> a_status a = Present)"
    if h: "mark_errors_isEmpty b \<and> faculty_known d
      \<and> find (active_session (m_sessionId b) (userId u)) (sessions d) = Some s
      \<and> castObjectId (m_studentId b) = Some i
      \<and> findById_user i (users d) = Some st \<and> u_role st = ''student''"
  proof -
    from h have s: "find (active_session (m_sessionId b) (userId u)) (sessions d) = Some s"
      by simp
    from find_SomeD[OF s] have "s \<in> set (sessions d)" "s_faculty s = userId u"
      by (simp_all add: active_session_def)
    with h obtain f where f: "findById_user (userId u) (users d) = Some f"
      by (auto simp: faculty_known_def)
    from h have "mark_errors_isEmpty b" "castObjectId (m_studentId b) = Some i"
      "findById_user i (users d) = Some st" "u_role st = ''student''"
      by simp_all
    from mark_stores[OF this(1) s this(2,3,4) f] obtain d' r a where
      m: "mark d u b = Inr (d', r)" "r = Created a \<or> r = Updated a"
        "find (same_pair i (m_sessionId b)) (attendances d') = Some a"
        "parse_status (m_status b) = Some (a_status a)"
      by blast
    from find_SomeD[OF m(3)] have p: "a_student a = i" "a_sessionId a = m_sessionId b"
      by (simp_all add: same_pair_def)
    from m(4) have "m_status b = ''present'' \<longrightarrow> a_status a = Present"
      by (auto simp: parse_status_def)
    with m p show ?thesis by blast
  qed
  have k: "faculty_known ex_db0" by (simp add: faculty_known_def ex_db0_def)
  have b: "session_start ex_db0 ex_u ex_start ex_now = Inr (ex_db1, ex_session)"
    by (simp add: ex_defs eval_defs show_nat_ex)
  have c: "mark_all ex_db1
       [(ex_u, ex_mark ex_stu1 ''present'' None None),
        (ex_u, ex_mark ex_stu2 ''present'' None None),
        (ex_u, ex_mark ex_stu3 ''present'' None None)]
     = Inr (ex_db [ex_session] [ex_att ex_student1 Present 0 [],
              ex_att ex_student2 Present 0 [], ex_att ex_student3 Present 0 []],
            [Created (ex_att ex_student1 Present 0 []),
             Created (ex_att ex_student2 Present 0 []),
             Created (ex_att ex_student3 Present 0 [])])"
    by (simp add: ex_defs eval_defs)
  have e: "session_end (ex_db [ex_session] [ex_att ex_student1 Present 0 [],
              ex_att ex_student2 Present 0 [], ex_att ex_student3 Present 0 []])
        ex_u ex_sid (ex_now + 3600000)
     = Inr (ex_db [ex_closed 1 3] [ex_att ex_student1 Present 0 [],
              ex_att ex_student2 Present 0 [], ex_att ex_student3 Present 0 []],
            ex_closed 1 3)"
    by (simp add: ex_defs eval_defs)
  have g: "s_totalStudents ex_session = 1" "s_presentStudents (ex_closed 1 3) = 3"
    "s_totalStudents (ex_closed 1 3) = 1" "s_absentStudents (ex_closed 1 3) = - 2"
    by (simp_all add: ex_defs)
  show ?thesis
  proof (intro conjI impI)
    assume "mark_errors_isEmpty b \<and> faculty_known d
      \<and> find (active_session (m_sessionId b) (userId u)) (sessions d) = Some s
      \<and> castObjectId (m_studentId b) = Some i
      \<and> findById_user i (users d) = Some st \<and> u_role st = ''student''"
    then show "\<exists>d' r a. mark d u b = Inr (d', r) \<and> (r = Created a \<or> r = Updated a)
           \<and> find (same_pair i (m_sessionId b)) (attendances d') = Some a
           \<and> a_student a = i \<and> a_sessionId a = m_sessionId b
           \<and> parse_status (m_status b) = Some (a_status a)
           \<and> (m_status b = ''present'' \<longrightarrow> a_status a = Present)"
      by (rule a)
  qed (rule k b c e g)+
qed

theorem mark_ignores_cohort_witness:
  "u_department ex_student2 \<noteq> s_department ex_session
   \<and> mark ex_db1 ex_u (ex_mark ex_stu2 ''present'' None None)
       = Inr (ex_db [ex_session] [ex_att ex_student2 Present 0 []],
              Created (ex_att ex_student2 Present 0 []))
   \<and> find (same_pair ex_stu2 ex_sid) [ex_att ex_student2 Present 0 []]
       = Some (ex_att ex_student2 Present 0 [])
   \<and> a_status (ex_att ex_student2 Present 0 []) = Present
   \<and> \<not> u_isActive ex_student3
   \<and> mark ex_db1 ex_u (ex_mark ex_stu3 ''present'' None None)
       = Inr (ex_db [ex_session] [ex_att ex_student3 Present 0 []],
              Created (ex_att ex_student3 Present 0 []))"
proof -
  let ?b = "ex_mark ex_stu2 ''present'' None None"
  have h: "mark_errors_isEmpty ?b \<and> faculty_known ex_db1
      \<and> find (active_session (m_sessionId ?b) (userId ex_u)) (sessions ex_db1) = Some ex_session
      \<and> castObjectId (m_studentId ?b) = Some ex_stu2
      \<and> findById_user ex_stu2 (users ex_db1) = Some ex_student2
      \<and> u_role ex_student2 = ''student''"
    by (simp add: ex_defs eval_defs faculty_known_def)
  have other: "u_department ex_student2 \<noteq> s_department ex_session" "\<not> u_isActive ex_student3"
    by (simp_all add: ex_defs)
  have run: "mark ex_db1 ex_u ?b
       = Inr (ex_db [ex_session] [ex_att ex_student2 Present 0 []],
              Created (ex_att ex_student2 Present 0 []))"
    by (simp add: ex_defs eval_defs)
  have run3: "mark ex_db1 ex_u (ex_mark ex_stu3 ''present'' None None)
       = Inr (ex_db [ex_session] [ex_att ex_student3 Present 0 []],
              Created (ex_att ex_student3 Present 0 []))"
    by (simp add: ex_defs eval_defs)
  have e: "m_sessionId ?b = ex_sid" "m_status ?b = ''present''"
    "attendances (ex_db [ex_session] [ex_att ex_student2 Present 0 []])
       = [ex_att ex_student2 Present 0 []]"
    by (simp_all add: ex_mark_def ex_db_def)
  from conjunct1[OF mark_ignores_cohort, THEN mp, OF h]
  obtain d' r a where m: "mark ex_db1 ex_u ?b = Inr (d', r)"
    "find (same_pair ex_stu2 (m_sessionId ?b)) (attendances d') = Some a"
    "m_status ?b = ''present'' \<longrightarrow> a_status a = Present"
    by blast
  from m(1) run have d': "d' = ex_db [ex_session] [ex_att ex_student2 Present 0 []]" by simp
  from m(2) have f: "find (same_pair ex_stu2 ex_sid) [ex_att ex_student2 Present 0 []] = Some a"
    unfolding d' e .
  have "find (same_pair ex_stu2 ex_sid) [ex_att ex_student2 Present 0 []]
      = Some (ex_att ex_student2 Present 0 [])"
    by (simp add: same_pair_def ex_defs)
  with f have a: "a = ex_att ex_student2 Present 0 []" by simp
  from m(3) e(2) have "a_status a = Present" by simp
  with a f other run run3 show ?thesis by simp
qed


section \<open>The report of a faculty member\<close>

lemmas query_defs = report_def report_filter_def find_attendance_def matches_def field_ok_def
  truthy_def no_filter_def set_when_def sort_date_desc_name_def sort_date_desc_def populate_report_row_def
  populate_student_row_def student_attendance_def student_filter_def statistics_def
  tally_record_def new_tally_def count_record_def finish_stat_def percentage_of_def
  status_of_def toFixed1_def exact_percent_def

lemmas ex_query_defs = ex_att2_def ex_admin_def ex_rq_def ex_su_def ex_q_def ex_db2_def

lemma floor_numeral_div: "\<lfloor>numeral a / numeral b :: rat\<rfloor> = numeral a div numeral b"
  using floor_divide_of_int_eq[of "numeral a" "numeral b", where ?'a = rat] by simp





lemmas ex_stat_defs = ex_day_def ex_history_def ex_db3_def ex_rows_def ex_stat_def



section \<open>The history of a student\<close>

lemma tally_all_error: "tally_all stats rows = Inl e \<Longrightarrow> e = ServerError"
  by (induction rows arbitrary: stats) (auto split: option.splits)

text \<open>
  Claim C8. When the caller's role is student and the requested identifier is not the
  caller's own, the answer is the access-denied error, which carries no records. When the
  caller's role is not student, or the identifier is the caller's own, the answer is not
  the access-denied error.
\<close>

theorem student_access_check:
  "(role u = ''student'' \<and> userId u \<noteq> studentId
      \<longrightarrow> student_attendance fl d u studentId q = Inl AccessDeniedError)
   \<and> (role u \<noteq> ''student'' \<or> userId u = studentId
      \<longrightarrow> student_attendance fl d u studentId q \<noteq> Inl AccessDeniedError)"
proof -
  have "statistics fl rows \<noteq> Inl AccessDeniedError" for rows
    using tally_all_error[of "[]" rows AccessDeniedError]
    by (auto simp: statistics_def split: sum.splits)
  then show ?thesis
    by (auto simp: student_attendance_def Let_def split: sum.splits)
qed

theorem student_access_check_witness:
  "student_attendance exact_percent ex_db2 (ex_su ex_stu1) ex_stu2 ex_q = Inl AccessDeniedError
   \<and> student_attendance exact_percent ex_db2 (ex_su ex_stu1) ex_stu1 ex_q \<noteq> Inl AccessDeniedError
   \<and> student_attendance exact_percent ex_db2 ex_u ex_stu2 ex_q \<noteq> Inl AccessDeniedError
   \<and> map_sum id (map (a_student \<circ> r_doc) \<circ> fst)
        (student_attendance exact_percent ex_db2 (ex_su ex_stu1) ex_stu1 ex_q) = Inr [ex_stu1]
   \<and> map_sum id (map (a_student \<circ> r_doc) \<circ> fst)
        (student_attendance exact_percent ex_db2 ex_u ex_stu2 ex_q) = Inr [ex_stu2]"
proof -
  have other: "role (ex_su ex_stu1) = ''student'' \<and> userId (ex_su ex_stu1) \<noteq> ex_stu2"
    by (simp add: ex_su_def ex_stu1_def ex_stu2_def)
  have own: "role (ex_su ex_stu1) \<noteq> ''student'' \<or> userId (ex_su ex_stu1) = ex_stu1"
    by (simp add: ex_su_def)
  have fac: "role ex_u \<noteq> ''student'' \<or> userId ex_u = ex_stu2"
    by (simp add: ex_u_def)
  note denied = conjunct1[OF student_access_check, THEN mp, of _ _ exact_percent]
  note passed = conjunct2[OF student_access_check, THEN mp, of _ _ exact_percent]
  have 4: "map_sum id (map (a_student \<circ> r_doc) \<circ> fst)
        (student_attendance exact_percent ex_db2 (ex_su ex_stu1) ex_stu1 ex_q) = Inr [ex_stu1]"
    by (simp add: ex_defs ex_query_defs query_defs eval_defs floor_numeral_div)
  have 5: "map_sum id (map (a_student \<circ> r_doc) \<circ> fst)
        (student_attendance exact_percent ex_db2 ex_u ex_stu2 ex_q) = Inr [ex_stu2]"
    by (simp add: ex_defs ex_query_defs query_defs eval_defs floor_numeral_div)
  from denied[OF other] passed[OF own] passed[OF fac] 4 5 show ?thesis by simp
qed

section \<open>Statistics per subject\<close>

lemma map_of_update_entry:
  "map_of (update_entry k g xs) k' = (if k' = k then map_option g (map_of xs k) else map_of xs k')"
  by (induction xs) auto

lemma fst_update_entry: "map fst (update_entry k g xs) = map fst xs"
  by (induction xs) auto

lemma map_of_tally_record:
  "map_of (tally_record k rec stats) k' =
     (if k' = k
      then Some (count_record rec (case map_of stats k of None \<Rightarrow> new_tally rec | Some t \<Rightarrow> t))
      else map_of stats k')"
  by (auto simp: tally_record_def map_of_update_entry map_add_def split: option.splits)

lemma distinct_tally_record:
  "distinct (map fst stats) \<Longrightarrow> distinct (map fst (tally_record k rec stats))"
  by (auto simp: tally_record_def fst_update_entry map_of_eq_None_iff)

lemma tally_all_keys:
  "tally_all stats rows = Inr stats' \<Longrightarrow> distinct (map fst stats) \<Longrightarrow> distinct (map fst stats')"
  by (induction rows arbitrary: stats) (auto split: option.splits simp: distinct_tally_record)

lemma tally_all_lookup:
  "tally_all stats rows = Inr stats' \<Longrightarrow>
   map_of stats' k =
     (case map_of stats k of
        Some t \<Rightarrow> Some (tally_rows t (subject_rows k rows))
      | None \<Rightarrow> (case subject_rows k rows of
                   [] \<Rightarrow> None
                 | r # rs \<Rightarrow> Some (tally_rows (new_tally (r_doc r)) (r # rs))))"
proof (induction rows arbitrary: stats)
  case Nil
  then show ?case by (simp add: subject_rows_def tally_rows_def split: option.splits)
next
  case (Cons r rows)
  from Cons.prems obtain s where s: "r_subject r = Some s"
    and run: "tally_all (tally_record (sub_id s) (r_doc r) stats) rows = Inr stats'"
    by (auto split: option.splits)
  show ?case
  proof (cases "k = sub_id s")
    case True
    then have g: "subject_rows k (r # rows) = r # subject_rows k rows"
      using s by (simp add: subject_rows_def)
    show ?thesis
      unfolding Cons.IH[OF run] g using True
      by (simp add: map_of_tally_record tally_rows_def split: option.splits)
  next
    case False
    then have g: "subject_rows k (r # rows) = subject_rows k rows"
      using s by (auto simp: subject_rows_def)
    show ?thesis
      unfolding Cons.IH[OF run] g using False
      by (simp add: map_of_tally_record)
  qed
qed

lemma tally_rows_counts:
  "t_total (tally_rows t rows) = t_total t + length rows"
  "t_present (tally_rows t rows) = t_present t + count_status Present rows"
  "t_absent (tally_rows t rows) = t_absent t + count_status Absent rows"
  "t_late (tally_rows t rows) = t_late t + count_status Late rows"
  "t_subjectName (tally_rows t rows) = t_subjectName t"
  by (induction rows arbitrary: t;
      simp add: tally_rows_def count_status_def count_record_def Let_def split: att_status.splits)+

lemma count_present_late:
  "count_status Present rows + count_status Late rows \<le> length rows"
  by (induction rows) (auto simp: count_status_def)

lemma toFixed1_near:
  assumes "0 \<le> x"
  shows "\<bar>toFixed1 x - x\<bar> \<le> 1 / 20" and "\<exists>m::int. toFixed1 x = of_int m / 10"
proof -
  define n where "n = \<lfloor>x * 10 + 1 / 2\<rfloor>"
  have t: "toFixed1 x = of_int n / 10" using assms by (simp add: toFixed1_def n_def)
  have "of_int n \<le> x * 10 + 1 / 2" "x * 10 + 1 / 2 < of_int n + 1"
    unfolding n_def by linarith+
  then show "\<bar>toFixed1 x - x\<bar> \<le> 1 / 20" unfolding t by linarith
  from t show "\<exists>m::int. toFixed1 x = of_int m / 10" by blast
qed

lemma toFixed1_near_all: "\<bar>toFixed1 x - x\<bar> \<le> 1 / 20"
proof (cases "x < 0")
  case False
  then show ?thesis using toFixed1_near(1)[of x] by simp
next
  case True
  define n where "n = \<lfloor>(- x) * 10 + 1 / 2\<rfloor>"
  have t: "toFixed1 x = - (of_int n / 10)" using True by (simp add: toFixed1_def n_def)
  have "of_int n \<le> (- x) * 10 + 1 / 2" "(- x) * 10 + 1 / 2 < of_int n + 1"
    unfolding n_def by linarith+
  then show ?thesis unfolding t by linarith
qed

lemma toFixed1_tenths: "\<exists>m::int. toFixed1 x = of_int m / 10"
proof (cases "x < 0")
  case False
  then show ?thesis using toFixed1_near(2)[of x] by simp
next
  case True
  have "toFixed1 x = of_int (- \<lfloor>(- x) * 10 + 1 / 2\<rfloor>) / 10"
    using True by (simp add: toFixed1_def)
  then show ?thesis by blast
qed

lemma toFixed1_of_tenth:
  assumes "\<bar>q - of_int m / 10\<bar> < 1 / 20" and "0 \<le> m"
  shows "toFixed1 q = of_int m / 10"
proof (cases "q < 0")
  case False
  have "\<lfloor>q * 10 + 1 / 2\<rfloor> = m"
    by (rule floor_unique) (use assms(1) in linarith)+
  with False show ?thesis by (simp add: toFixed1_def)
next
  case True
  with assms have "rat_of_int m < 1 / 2" by linarith
  then have "m < 1" by linarith
  with assms(2) have m: "m = 0" by simp
  from assms(1) True m have b: "0 \<le> (- q) * 10 + 1 / 2" "(- q) * 10 + 1 / 2 < 1"
    by simp_all
  have "\<lfloor>(- q) * 10 + 1 / 2\<rfloor> = 0"
    by (rule floor_unique) (use b in simp_all)
  with True m show ?thesis by (simp add: toFixed1_def)
qed

text \<open>
  Claim C5. Let \<open>fl\<close> give, for a count and a total that is positive and not less, a
  value within \<open>\<delta>\<close> of their exact quotient times 100, as the double-precision
  evaluation does for a tiny \<open>\<delta>\<close>. Let the
  statistics of a list of populated rows succeed, and let the rows of subject \<open>k\<close> be a
  non-empty group. Then the keys of the \<open>stats\<close> object are distinct, the entry of \<open>k\<close>
  is one of the statistics returned, and its counts are the numbers of rows of the group
  in all and per status. Its percentage is \<open>toFixed(1)\<close> of the evaluated quotient: a
  multiple of one tenth at distance at most \<open>0.05 + \<delta>\<close> from
  \<open>(present + late) / total * 100\<close>; when \<open>\<delta> < 0.05\<close> and the exact value is itself a
  multiple of one tenth, the percentage is that value; with exact evaluation it is the
  exact value rounded to the nearest tenth, the upper one of two. The status is excellent
  when the percentage is at least 90, good when it is at least 75 and below 90, and bad
  otherwise; so 90.0 is excellent, 75.0 and 89.9 are good, and 74.9 is bad.
\<close>

theorem per_subject_statistics:
  "(statistics fl rows = Inr sts \<and> subject_rows k rows \<noteq> []
      \<and> (\<forall>n t. 0 < t \<and> n \<le> t \<longrightarrow> \<bar>fl n t - exact_percent n t\<bar> \<le> \<delta>) \<longrightarrow>
     (\<exists>stats t.
        tally_all [] rows = Inr stats \<and> sts = map (\<lambda>(k, t). finish_stat fl t) stats
        \<and> distinct (map fst stats) \<and> map_of stats k = Some t
        \<and> (let G = subject_rows k rows; s = finish_stat fl t;
                n = length G; present = count_status Present G;
                late = count_status Late G; absent = count_status Absent G;
                exact = (of_nat present + of_nat late) / of_nat n * 100
            in s \<in> set sts
               \<and> st_total s = n \<and> st_present s = present \<and> st_late s = late
               \<and> st_absent s = absent
               \<and> st_percentage s = toFixed1 (fl (present + late) n)
               \<and> (\<exists>m::int. st_percentage s = of_int m / 10)
               \<and> \<bar>st_percentage s - exact\<bar> \<le> 1 / 20 + \<delta>
               \<and> (\<delta> < 1 / 20 \<and> (\<exists>m::int. exact = of_int m / 10) \<longrightarrow> st_percentage s = exact)
               \<and> (fl = exact_percent \<longrightarrow> st_percentage s = toFixed1 exact)
               \<and> st_status s =
                   (if st_percentage s \<ge> 90 then ''excellent''
                    else if st_percentage s \<ge> 75 then ''good'' else ''bad''))))
   \<and> status_of 90 = ''excellent'' \<and> status_of 75 = ''good'' \<and> status_of (749 / 10) = ''bad''
   \<and> status_of (899 / 10) = ''good''"
proof -
  have main: "\<exists>stats t.
        tally_all [] rows = Inr stats \<and> sts = map (\<lambda>(k, t). finish_stat fl t) stats
        \<and> distinct (map fst stats) \<and> map_of stats k = Some t
        \<and> (let G = subject_rows k rows; s = finish_stat fl t;
                n = length G; present = count_status Present G;
                late = count_status Late G; absent = count_status Absent G;
                exact = (of_nat present + of_nat late) / of_nat n * 100
            in s \<in> set sts
               \<and> st_total s = n \<and> st_present s = present \<and> st_late s = late
               \<and> st_absent s = absent
               \<and> st_percentage s = toFixed1 (fl (present + late) n)
               \<and> (\<exists>m::int. st_percentage s = of_int m / 10)
               \<and> \<bar>st_percentage s - exact\<bar> \<le> 1 / 20 + \<delta>
               \<and> (\<delta> < 1 / 20 \<and> (\<exists>m::int. exact = of_int m / 10) \<longrightarrow> st_percentage s = exact)
               \<and> (fl = exact_percent \<longrightarrow> st_percentage s = toFixed1 exact)
               \<and> st_status s =
                   (if st_percentage s \<ge> 90 then ''excellent''
                    else if st_percentage s \<ge> 75 then ''good'' else ''bad''))"
    if run: "statistics fl rows = Inr sts" and ne: "subject_rows k rows \<noteq> []"
      and close: "\<forall>n t. 0 < t \<and> n \<le> t \<longrightarrow> \<bar>fl n t - exact_percent n t\<bar> \<le> \<delta>"
  proof -
    define G where "G = subject_rows k rows"
    from run obtain stats where st: "tally_all [] rows = Inr stats"
      and sts: "sts = map (\<lambda>(k, t). finish_stat fl t) stats"
      by (auto simp: statistics_def split: sum.splits)
    from ne obtain r rs where g: "G = r # rs" unfolding G_def by (cases "subject_rows k rows") auto
    define t where "t = tally_rows (new_tally (r_doc r)) G"
    have look: "map_of stats k = Some t"
      using tally_all_lookup[OF st, of k] g by (simp add: G_def t_def)
    have dist: "distinct (map fst stats)" using tally_all_keys[OF st] by simp
    from look have "(k, t) \<in> set stats" by (rule map_of_SomeD)
    then have mem: "finish_stat fl t \<in> set sts" unfolding sts by force
    have total: "t_total t = length G" and present: "t_present t = count_status Present G"
      and late: "t_late t = count_status Late G" and absent: "t_absent t = count_status Absent G"
      by (simp_all add: t_def tally_rows_counts new_tally_def)
    have pos: "0 < length G" using g by simp
    define a where "a = count_status Present G + count_status Late G"
    define q where "q = fl a (length G)"
    define exact :: rat where
      "exact = (of_nat (count_status Present G) + of_nat (count_status Late G)) / of_nat (length G) * 100"
    have ex: "exact = exact_percent a (length G)" by (simp add: exact_def exact_percent_def a_def)
    have nonneg: "0 \<le> exact" unfolding exact_def by simp
    have "a \<le> length G" unfolding a_def by (rule count_present_late)
    with close pos have d: "\<bar>q - exact\<bar> \<le> \<delta>" unfolding q_def ex by blast
    have pct: "percentage_of fl t = toFixed1 q"
      using pos by (simp add: percentage_of_def total present late q_def a_def)
    have p: "st_percentage (finish_stat fl t) = toFixed1 q" by (simp add: finish_stat_def pct)
    have fields: "st_total (finish_stat fl t) = length G"
      "st_present (finish_stat fl t) = count_status Present G"
      "st_late (finish_stat fl t) = count_status Late G"
      "st_absent (finish_stat fl t) = count_status Absent G"
      "st_status (finish_stat fl t) =
         (if st_percentage (finish_stat fl t) \<ge> 90 then ''excellent''
          else if st_percentage (finish_stat fl t) \<ge> 75 then ''good'' else ''bad'')"
      by (simp_all add: finish_stat_def total present late absent status_of_def)
    have tenths: "\<exists>m::int. st_percentage (finish_stat fl t) = of_int m / 10"
      unfolding p by (rule toFixed1_tenths)
    have near: "\<bar>st_percentage (finish_stat fl t) - exact\<bar> \<le> 1 / 20 + \<delta>"
      unfolding p using toFixed1_near_all[of q] d by linarith
    have same: "st_percentage (finish_stat fl t) = exact"
      if small: "\<delta> < 1 / 20" and m: "\<exists>m::int. exact = of_int m / 10"
    proof -
      from m obtain m :: int where m: "exact = of_int m / 10" ..
      with nonneg have "0 \<le> rat_of_int m" by simp
      then have m0: "0 \<le> m" by simp
      from d small have "\<bar>q - of_int m / 10\<bar> < 1 / 20" unfolding m by linarith
      from toFixed1_of_tenth[OF this m0] show ?thesis unfolding p m .
    qed
    have plain: "st_percentage (finish_stat fl t) = toFixed1 exact" if "fl = exact_percent"
      using p that by (simp add: q_def ex)
    show ?thesis
      apply (rule exI[of _ stats], rule exI[of _ t])
      unfolding Let_def G_def[symmetric] exact_def[symmetric]
      using st sts dist look mem fields tenths near same plain p
      by (simp add: q_def a_def)
  qed
  have ex: "status_of 90 = ''excellent''" "status_of 75 = ''good''"
    "status_of (749 / 10) = ''bad''" "status_of (899 / 10) = ''good''"
    by (simp_all add: status_of_def)
  show ?thesis
  proof (intro conjI impI)
    assume "statistics fl rows = Inr sts \<and> subject_rows k rows \<noteq> []
      \<and> (\<forall>n t. 0 < t \<and> n \<le> t \<longrightarrow> \<bar>fl n t - exact_percent n t\<bar> \<le> \<delta>)"
    then show "\<exists>stats t.
        tally_all [] rows = Inr stats \<and> sts = map (\<lambda>(k, t). finish_stat fl t) stats
        \<and> distinct (map fst stats) \<and> map_of stats k = Some t
        \<and> (let G = subject_rows k rows; s = finish_stat fl t;
                n = length G; present = count_status Present G;
                late = count_status Late G; absent = count_status Absent G;
                exact = (of_nat present + of_nat late) / of_nat n * 100
            in s \<in> set sts
               \<and> st_total s = n \<and> st_present s = present \<and> st_late s = late
               \<and> st_absent s = absent
               \<and> st_percentage s = toFixed1 (fl (present + late) n)
               \<and> (\<exists>m::int. st_percentage s = of_int m / 10)
               \<and> \<bar>st_percentage s - exact\<bar> \<le> 1 / 20 + \<delta>
               \<and> (\<delta> < 1 / 20 \<and> (\<exists>m::int. exact = of_int m / 10) \<longrightarrow> st_percentage s = exact)
               \<and> (fl = exact_percent \<longrightarrow> st_percentage s = toFixed1 exact)
               \<and> st_status s =
                   (if st_percentage s \<ge> 90 then ''excellent''
                    else if st_percentage s \<ge> 75 then ''good'' else ''bad''))"
      using main by blast
  qed (rule ex)+
qed

theorem per_subject_statistics_witness:
  "statistics exact_percent ex_rows = Inr [ex_stat]
   \<and> length (subject_rows ex_subj ex_rows) = 10
   \<and> count_status Present (subject_rows ex_subj ex_rows) = 7
   \<and> count_status Late (subject_rows ex_subj ex_rows) = 2
   \<and> count_status Absent (subject_rows ex_subj ex_rows) = 1
   \<and> st_percentage ex_stat = (of_nat 7 + of_nat 2) / of_nat 10 * 100
   \<and> st_percentage ex_stat = 90 \<and> st_status ex_stat = ''excellent''
   \<and> map_sum id snd (student_attendance exact_percent ex_db3 (ex_su ex_stu1) ex_stu1 ex_q)
       = Inr [ex_stat]"
proof -
  have run: "statistics exact_percent ex_rows = Inr [ex_stat]"
    by (simp add: ex_defs ex_stat_defs ex_query_defs query_defs eval_defs floor_numeral_div)
  have g: "subject_rows ex_subj ex_rows = ex_rows"
    by (simp add: subject_rows_def ex_defs ex_stat_defs query_defs eval_defs)
  have ne: "subject_rows ex_subj ex_rows \<noteq> []"
    unfolding g by (simp add: ex_rows_def ex_history_def)
  have cl: "\<forall>n t. 0 < t \<and> n \<le> t \<longrightarrow> \<bar>exact_percent n t - exact_percent n t\<bar> \<le> 0"
    by simp
  have c: "length ex_rows = 10" "count_status Present ex_rows = 7"
    "count_status Late ex_rows = 2" "count_status Absent ex_rows = 1"
    by (simp_all add: count_status_def ex_defs ex_stat_defs query_defs)
  have tenth: "\<exists>m::int. (rat_of_nat 7 + rat_of_nat 2) / rat_of_nat 10 * 100 = rat_of_int m / 10"
    by (rule exI[of _ 900]) simp
  from conjunct1[OF per_subject_statistics, THEN mp, OF conjI[OF run conjI[OF ne cl]]]
  obtain stats t where t: "finish_stat exact_percent t \<in> set [ex_stat]"
    "(0::rat) < 1 / 20 \<and> (\<exists>m::int.
        (of_nat (count_status Present (subject_rows ex_subj ex_rows))
          + of_nat (count_status Late (subject_rows ex_subj ex_rows)))
         / of_nat (length (subject_rows ex_subj ex_rows)) * 100 = rat_of_int m / 10)
     \<longrightarrow> st_percentage (finish_stat exact_percent t) =
       (of_nat (count_status Present (subject_rows ex_subj ex_rows))
          + of_nat (count_status Late (subject_rows ex_subj ex_rows)))
         / of_nat (length (subject_rows ex_subj ex_rows)) * 100"
    unfolding Let_def by blast
  from t(2) tenth have "st_percentage (finish_stat exact_percent t)
      = (of_nat 7 + of_nat 2) / of_nat 10 * 100"
    unfolding g c by simp
  with t(1) have p: "st_percentage ex_stat = (of_nat 7 + of_nat 2) / of_nat 10 * 100"
    by simp
  have q: "map_sum id snd (student_attendance exact_percent ex_db3 (ex_su ex_stu1) ex_stu1 ex_q)
      = Inr [ex_stat]"
    by (simp add: ex_defs ex_stat_defs ex_query_defs query_defs eval_defs floor_numeral_div)
  from run g c p q show ?thesis by (simp add: ex_stat_def)
qed

end
